theory Spec2Isabelle
  imports Complex_Main "HOL-Library.Word" "HOL-Library.Signed_Division"
begin

unbundle bit_operations_syntax

section \<open>Bytes, strings and the OASIS byte stream\<close>

text \<open>
  The translation layer of gdstk (\<^verbatim>\<open>src/library.cpp\<close>): \<^verbatim>\<open>Library::write_gds\<close>,
  \<^verbatim>\<open>Library::write_oas\<close>, \<^verbatim>\<open>read_gds\<close> and \<^verbatim>\<open>read_oas\<close>.

  A \<^verbatim>\<open>uint8_t\<close> is an \<open>8 word\<close>, a \<^verbatim>\<open>uint64_t\<close> a \<open>64 word\<close>. A \<^verbatim>\<open>char*\<close> string is the
  list of the bytes that were copied into its allocation; the functions of the C library
  (\<^verbatim>\<open>strlen\<close>, \<^verbatim>\<open>strcmp\<close>) and the hash map read it up to its first zero byte, which is
  \<open>c_str\<close>. A \<^verbatim>\<open>double\<close> is the real number it denotes: comparisons with the constants 0
  and 1 are exact, NaN and the infinities are outside the model, and products and
  quotients are those of the reals (the program rounds them; no statement below depends
  on the value of a product or a quotient).
\<close>

type_synonym byte = "8 word"

type_synonym Vec2 = "real \<times> real"

definition c_str :: "byte list \<Rightarrow> byte list" where
  "c_str s = takeWhile (\<lambda>b. b \<noteq> 0) s"

text \<open>
  \<^verbatim>\<open>OasisStream\<close> (\<^verbatim>\<open>oasis.h\<close>): a file handle and an in-memory buffer with a cursor. The
  record is used with two kinds of file: for output the file is the list of the bytes
  written so far (the file is opened with \<^verbatim>\<open>"wb"\<close> and never repositioned, so \<^verbatim>\<open>ftell\<close> is
  their number); for input it is a \<open>FILE\<close>, the contents and the read position.
  \<open>cursor = None\<close> is the null cursor; \<open>cursor = Some k\<close> is \<^verbatim>\<open>data + k\<close>. While
  writing, \<open>data\<close> holds the bytes between \<^verbatim>\<open>out.data\<close> and the cursor (what lies behind
  the cursor is never read), so that \<^verbatim>\<open>out.cursor = out.data\<close> empties it; while reading,
  \<open>data\<close> is the whole inflated buffer.
\<close>

record 'f OasisStream =
  file' :: 'f
  data :: "byte list"
  cursor :: "nat option"

text \<open>
  \<^verbatim>\<open>fputc(c, out.file)\<close>, \<^verbatim>\<open>fwrite(bytes, 1, n, out.file)\<close> and \<^verbatim>\<open>ftell(out.file)\<close> on the
  file of an output stream.
\<close>

definition fputc :: "byte \<Rightarrow> byte list OasisStream \<Rightarrow> byte list OasisStream" where
  "fputc c out = out\<lparr>file' := file' out @ [c]\<rparr>"

definition fwrite :: "byte list \<Rightarrow> byte list OasisStream \<Rightarrow> byte list OasisStream" where
  "fwrite bytes out = out\<lparr>file' := file' out @ bytes\<rparr>"

definition ftell :: "byte list OasisStream \<Rightarrow> 64 word" where
  "ftell out = of_nat (length (file' out))"

text \<open>
  Modelled from the spec: \<^verbatim>\<open>oasis_write\<close> and \<^verbatim>\<open>oasis_putc\<close> (\<^verbatim>\<open>oasis.cpp\<close> is not part of
  the sources). Section 4.2: when the cursor is null, all writes go to the file; when the
  cursor is set to the buffer's start, writes append to the buffer (growing as needed).
\<close>

definition oasis_write :: "byte list \<Rightarrow> byte list OasisStream \<Rightarrow> byte list OasisStream" where
  "oasis_write bytes out =
     (case cursor out of
        None \<Rightarrow> fwrite bytes out
      | Some k \<Rightarrow> out\<lparr>data := data out @ bytes, cursor := Some (k + length bytes)\<rparr>)"

definition oasis_putc :: "byte \<Rightarrow> byte list OasisStream \<Rightarrow> byte list OasisStream" where
  "oasis_putc c out = oasis_write [c] out"

text \<open>
  Modelled from the spec: the encoding written by \<^verbatim>\<open>oasis_write_unsigned_integer\<close>
  (\<^verbatim>\<open>oasis.cpp\<close> is not part of the sources). Section 4.1: an unsigned integer is a 7-bit
  little-endian varint, continuation bit in the most significant bit of each byte.
\<close>

function unsigned_integer_bytes :: "nat \<Rightarrow> byte list" where
  "unsigned_integer_bytes n =
     (if n < 128 then [of_nat n]
      else of_nat (n mod 128 + 128) # unsigned_integer_bytes (n div 128))"
  by pat_completeness auto
termination
  by (relation "measure id") auto

declare unsigned_integer_bytes.simps [simp del]

definition oasis_write_unsigned_integer ::
  "byte list OasisStream \<Rightarrow> 64 word \<Rightarrow> byte list OasisStream" where
  "oasis_write_unsigned_integer out v = oasis_write (unsigned_integer_bytes (unat v)) out"

type_synonym 'v Map = "(byte list \<times> 'v) list"

text \<open>
  Modelled from the spec: \<^verbatim>\<open>Map\<close> (\<^verbatim>\<open>map.h\<close> is not part of the sources), the hash map
  keyed by name bytes of section 4.8. A map is the list of its items; \<^verbatim>\<open>set\<close> replaces
  the value of a key that is present and adds an item otherwise, \<^verbatim>\<open>get\<close> of an absent key
  gives the zero value (\<open>None\<close> here, turned into 0 or the null pointer by the caller).
  The items are listed in the order of their first insertion; the order in which the
  program's hash table lists them is not fixed by the sources.
\<close>

fun Map_set :: "'v Map \<Rightarrow> byte list \<Rightarrow> 'v \<Rightarrow> 'v Map" where
  "Map_set [] key v = [(c_str key, v)]"
| "Map_set ((k, w) # m) key v =
     (if k = c_str key then (k, v) # m else (k, w) # Map_set m key v)"

definition Map_get :: "'v Map \<Rightarrow> byte list \<Rightarrow> 'v option" where
  "Map_get m key = map_of m (c_str key)"

definition Map_has_key :: "'v Map \<Rightarrow> byte list \<Rightarrow> bool" where
  "Map_has_key m key = (map_of m (c_str key) \<noteq> None)"

text \<open>\<^verbatim>\<open>ReferenceType\<close> (\<^verbatim>\<open>reference.h\<close>).\<close>

datatype ReferenceType = Cell | RawCell | Name

text \<open>
  What can go wrong in a way the C++ standard leaves undefined. The readers have no error
  returns; where the program reads or writes outside an object, dereferences a null
  pointer or hands one to the C library, the model stops with the fault.
\<close>

datatype fault =
    Out_of_bounds
  | Null_pointer
  | Not_a_string
  | Dangling_pointer
  | Fclose_null

primrec fold_err :: "('a \<Rightarrow> 's \<Rightarrow> fault + 's) \<Rightarrow> 'a list \<Rightarrow> 's \<Rightarrow> fault + 's" where
  "fold_err f [] s = Inr s"
| "fold_err f (x # xs) s = (case f x s of Inl e \<Rightarrow> Inl e | Inr s' \<Rightarrow> fold_err f xs s')"

section \<open>The writers\<close>

text \<open>
  \<^verbatim>\<open>OasisRecord\<close> (\<^verbatim>\<open>oasis.h\<close>): the enumerators named in \<^verbatim>\<open>library.cpp\<close>. Their numeric
  values are declared in \<^verbatim>\<open>oasis.h\<close>, which is not part of the sources, so the byte of each
  record is a parameter, \<open>record_byte\<close> below.
\<close>

datatype OasisRecord =
    PAD | START | END | CELLNAME_IMPLICIT | CELLNAME | TEXTSTRING_IMPLICIT | TEXTSTRING
  | PROPNAME_IMPLICIT | PROPNAME | PROPSTRING_IMPLICIT | PROPSTRING | LAYERNAME_DATA
  | LAYERNAME_TEXT | CELL_REF_NUM | CELL | XYABSOLUTE | XYRELATIVE | PLACEMENT
  | PLACEMENT_TRANSFORM | TEXT | RECTANGLE | POLYGON | PATH | TRAPEZOID_AB | TRAPEZOID_A
  | TRAPEZOID_B | CTRAPEZOID | CIRCLE | PROPERTY | LAST_PROPERTY | XNAME_IMPLICIT | XNAME
  | XELEMENT | XGEOMETRY | CBLOCK

text \<open>
  What the writers read of a library. The writers never mutate the library; they follow
  its pointers, so the model takes the library by value: a cell array is the list of the
  cells pointed to. The classes of the collaborators (\<^verbatim>\<open>Polygon\<close>, \<^verbatim>\<open>FlexPath\<close>,
  \<^verbatim>\<open>RobustPath\<close>, \<^verbatim>\<open>Repetition\<close>, \<^verbatim>\<open>Property\<close>, \<^verbatim>\<open>RawCell\<close>) are type parameters: the
  writers only hand their objects to functions that are not part of the sources.
  \<open>target_name\<close> of a reference is the string that the expression
  \<^verbatim>\<open>(ref->type == ReferenceType::Cell) ? ref->cell->name : ref->name\<close> evaluates to.
\<close>

record ('rep, 'props) Reference_w =
  type :: ReferenceType
  target_name :: "byte list"
  origin :: Vec2
  rotation :: real
  magnification :: real
  x_reflection :: bool
  repetition :: 'rep
  properties :: 'props

record ('rep, 'props) Label_w =
  text' :: "byte list"
  layer :: "64 word"
  texttype :: "64 word"
  origin :: Vec2
  repetition :: 'rep
  properties :: 'props

record 'path Path_w =
  gdsii_path :: bool
  path_object :: 'path

record ('poly, 'fpath, 'rpath, 'rep, 'props) Cell_w =
  name :: "byte list"
  polygon_array :: "'poly list"
  flexpath_array :: "'fpath Path_w list"
  robustpath_array :: "'rpath Path_w list"
  reference_array :: "('rep, 'props) Reference_w list"
  label_array :: "('rep, 'props) Label_w list"
  properties :: 'props

record ('poly, 'fpath, 'rpath, 'rep, 'props, 'raw) Library_w =
  name :: "byte list"
  unit :: real
  precision :: real
  cell_array :: "('poly, 'fpath, 'rpath, 'rep, 'props) Cell_w list"
  rawcell_array :: "'raw list"
  properties :: 'props

text \<open>
  \<^verbatim>\<open>OasisState\<close> (\<^verbatim>\<open>oasis.h\<close>): the scaling, the configuration flags, and the two tables
  that \<^verbatim>\<open>properties_to_oas\<close> fills while the file is written.
\<close>

record OasisState =
  scaling :: real
  config_flags :: "16 word"
  property_name_map :: "64 word Map"
  property_value_array :: "byte list list"

text \<open>
  \<^verbatim>\<open>struct tm\<close>, the fields that \<^verbatim>\<open>write_gds\<close> reads.
\<close>

record tm =
  tm_year :: int
  tm_mon :: int
  tm_mday :: int
  tm_hour :: int
  tm_min :: int
  tm_sec :: int

text \<open>The result of \<^verbatim>\<open>deflateInit2\<close> and \<^verbatim>\<open>deflate\<close> (zlib).\<close>

record zresult =
  init_ok :: bool
  stream_end :: bool
  total_out :: "byte list"

text \<open>
  The collaborators of the writers: functions of the repository or of the C library that
  are called from \<^verbatim>\<open>library.cpp\<close> and are not part of the sources. Each is a parameter.
  A function that writes to the stream gives the bytes it hands to \<^verbatim>\<open>oasis_write\<close>; the
  functions that take the \<^verbatim>\<open>OasisState\<close> give the new state as well.
  \<open>llround_scaled x s\<close> is \<^verbatim>\<open>(int64_t)llround(x * s)\<close>.
\<close>

record ('poly, 'fpath, 'rpath, 'rep, 'props, 'raw) collaborators =
  record_byte :: "OasisRecord \<Rightarrow> byte"
  OASIS_CONFIG_USE_CBLOCK :: "16 word"
  oasis_real_bytes :: "real \<Rightarrow> byte list"
  oasis_integer_bytes :: "64 word \<Rightarrow> byte list"
  oasis_repetition_bytes :: "'rep \<Rightarrow> real \<Rightarrow> byte list"
  get_size :: "'rep \<Rightarrow> 64 word"
  is_multiple_of_pi_over_2 :: "real \<Rightarrow> int option"
  llround_scaled :: "real \<Rightarrow> real \<Rightarrow> 64 word"
  properties_to_oas :: "'props \<Rightarrow> OasisState \<Rightarrow> byte list \<times> OasisState"
  polygon_to_oas :: "'poly \<Rightarrow> OasisState \<Rightarrow> byte list \<times> OasisState"
  flexpath_to_oas :: "'fpath \<Rightarrow> OasisState \<Rightarrow> byte list \<times> OasisState"
  flexpath_to_polygons :: "'fpath \<Rightarrow> 'poly list"
  robustpath_to_oas :: "'rpath \<Rightarrow> OasisState \<Rightarrow> byte list \<times> OasisState"
  robustpath_to_polygons :: "'rpath \<Rightarrow> 'poly list"
  null_properties :: 'props
  zlib_deflate :: "byte \<Rightarrow> byte list \<Rightarrow> zresult"
  gdsii_real_from_double :: "real \<Rightarrow> 64 word"
  cell_to_gds ::
    "('poly, 'fpath, 'rpath, 'rep, 'props) Cell_w \<Rightarrow> real \<Rightarrow> 64 word \<Rightarrow> real \<Rightarrow> tm \<Rightarrow> byte list"
  rawcell_to_gds :: "'raw \<Rightarrow> byte list"
  localtime_now :: tm


text \<open>
  The local variables of \<^verbatim>\<open>write_oas\<close> that change while the cells are written, and what
  the function sends to standard error.
\<close>

record oas_writer =
  out :: "byte list OasisStream"
  state :: OasisState
  text_string_map :: "64 word Map"
  stderr :: "string list"

definition emit ::
  "(OasisState \<Rightarrow> byte list \<times> OasisState) \<Rightarrow> oas_writer \<Rightarrow> oas_writer" where
  "emit to_oas w =
     (let (bytes, st) = to_oas (state w)
      in w\<lparr>out := oasis_write bytes (out w), state := st\<rparr>)"

text \<open>
  The body of the loop over \<^verbatim>\<open>cell->reference_array\<close> (lines 269 to 310). \<^verbatim>\<open>m\<close> is an
  \<^verbatim>\<open>int64_t\<close> and \<^verbatim>\<open>%\<close> truncates towards zero, which is \<open>smod\<close>.
\<close>

definition reference_to_oas ::
  "('poly, 'fpath, 'rpath, 'rep, 'props, 'raw) collaborators \<Rightarrow> 64 word Map
     \<Rightarrow> ('rep, 'props) Reference_w \<Rightarrow> oas_writer \<Rightarrow> oas_writer" where
  "reference_to_oas h cell_name_map ref w =
     (if Reference_w.type ref = RawCell
      then w\<lparr>stderr := stderr w
             @ [''[GDSTK] Reference to a RawCell cannot be used in a OASIS file.'']\<rparr>
      else
        let info = (0xF0 :: byte);
            has_repetition = (1 < get_size h (Reference_w.repetition ref));
            info = (if has_repetition then info OR 0x08 else info);
            info = (if x_reflection ref then info OR 0x01 else info);
            index = (case Map_get cell_name_map (target_name ref) of
                       None \<Rightarrow> 0 | Some i \<Rightarrow> i);
            w = (case (if magnification ref = 1 then is_multiple_of_pi_over_2 h (rotation ref)
                       else None) of
                   Some m \<Rightarrow>
                     let info = (if m < 0
                                 then info OR push_bit 1 (word_of_int (3 AND (m smod 4 + 4)))
                                 else info OR push_bit 1 (word_of_int (3 AND (m smod 4))));
                         o' = oasis_putc (record_byte h PLACEMENT) (out w);
                         o' = oasis_putc info o';
                         o' = oasis_write_unsigned_integer o' index
                     in w\<lparr>out := o'\<rparr>
                 | None \<Rightarrow>
                     let info = (if magnification ref \<noteq> 1 then info OR 0x04 else info);
                         info = (if rotation ref \<noteq> 0 then info OR 0x02 else info);
                         o' = oasis_putc (record_byte h PLACEMENT_TRANSFORM) (out w);
                         o' = oasis_putc info o';
                         o' = oasis_write_unsigned_integer o' index;
                         o' = (if magnification ref \<noteq> 1
                               then oasis_write (oasis_real_bytes h (magnification ref)) o'
                               else o');
                         o' = (if rotation ref \<noteq> 0
                               then oasis_write
                                      (oasis_real_bytes h (rotation ref * (180 / pi))) o'
                               else o')
                     in w\<lparr>out := o'\<rparr>);
            o' = oasis_write (oasis_integer_bytes h
                   (llround_scaled h (fst (Reference_w.origin ref)) (scaling (state w)))) (out w);
            o' = oasis_write (oasis_integer_bytes h
                   (llround_scaled h (snd (Reference_w.origin ref)) (scaling (state w)))) o';
            o' = (if has_repetition
                  then oasis_write (oasis_repetition_bytes h (Reference_w.repetition ref)
                         (scaling (state w))) o'
                  else o')
        in emit (properties_to_oas h (Reference_w.properties ref)) (w\<lparr>out := o'\<rparr>))"

text \<open>The body of the loop over \<^verbatim>\<open>cell->label_array\<close> (lines 313 to 334).\<close>

definition label_to_oas ::
  "('poly, 'fpath, 'rpath, 'rep, 'props, 'raw) collaborators
     \<Rightarrow> ('rep, 'props) Label_w \<Rightarrow> oas_writer \<Rightarrow> oas_writer" where
  "label_to_oas h label w =
     (let info = (0x7B :: byte);
          has_repetition = (1 < get_size h (Label_w.repetition label));
          info = (if has_repetition then info OR 0x04 else info);
          o' = oasis_putc (record_byte h TEXT) (out w);
          o' = oasis_putc info o';
          (index, tsm) =
             (if Map_has_key (text_string_map w) (text' label)
              then (case Map_get (text_string_map w) (text' label) of
                      None \<Rightarrow> 0 | Some i \<Rightarrow> i, text_string_map w)
              else (of_nat (length (text_string_map w)),
                    Map_set (text_string_map w) (text' label)
                      (of_nat (length (text_string_map w)))));
          o' = oasis_write_unsigned_integer o' index;
          o' = oasis_write_unsigned_integer o' (layer label);
          o' = oasis_write_unsigned_integer o' (texttype label);
          o' = oasis_write (oasis_integer_bytes h
                 (llround_scaled h (fst (Label_w.origin label)) (scaling (state w)))) o';
          o' = oasis_write (oasis_integer_bytes h
                 (llround_scaled h (snd (Label_w.origin label)) (scaling (state w)))) o';
          o' = (if has_repetition
                then oasis_write (oasis_repetition_bytes h (Label_w.repetition label)
                       (scaling (state w))) o'
                else o')
      in emit (properties_to_oas h (Label_w.properties label))
           (w\<lparr>out := o', text_string_map := tsm\<rparr>))"

text \<open>The bodies of the loops over the paths of a cell (lines 230 to 266).\<close>

definition flexpath_to_oas' ::
  "('poly, 'fpath, 'rpath, 'rep, 'props, 'raw) collaborators
     \<Rightarrow> 'fpath Path_w \<Rightarrow> oas_writer \<Rightarrow> oas_writer" where
  "flexpath_to_oas' h path w =
     (if gdsii_path path then emit (flexpath_to_oas h (path_object path)) w
      else fold (\<lambda>poly. emit (polygon_to_oas h poly))
             (flexpath_to_polygons h (path_object path)) w)"

definition robustpath_to_oas' ::
  "('poly, 'fpath, 'rpath, 'rep, 'props, 'raw) collaborators
     \<Rightarrow> 'rpath Path_w \<Rightarrow> oas_writer \<Rightarrow> oas_writer" where
  "robustpath_to_oas' h path w =
     (if gdsii_path path then emit (robustpath_to_oas h (path_object path)) w
      else fold (\<lambda>poly. emit (polygon_to_oas h poly))
             (robustpath_to_polygons h (path_object path)) w)"

text \<open>The body of the loop over the cells (lines 214 to 363).\<close>

definition cell_to_oas ::
  "('poly, 'fpath, 'rpath, 'rep, 'props, 'raw) collaborators \<Rightarrow> 64 word Map \<Rightarrow> bool \<Rightarrow> byte
     \<Rightarrow> ('poly, 'fpath, 'rpath, 'rep, 'props) Cell_w \<Rightarrow> oas_writer \<Rightarrow> oas_writer" where
  "cell_to_oas h cell_name_map use_cblock deflate_level cell w =
     (let o' = fputc (record_byte h CELL_REF_NUM) (out w);
          o' = oasis_write_unsigned_integer o'
                 (case Map_get cell_name_map (Cell_w.name cell) of None \<Rightarrow> 0 | Some i \<Rightarrow> i);
          o' = (if use_cblock then o'\<lparr>data := [], cursor := Some 0\<rparr> else o');
          w = w\<lparr>out := o'\<rparr>;
          w = fold (\<lambda>poly. emit (polygon_to_oas h poly)) (polygon_array cell) w;
          w = fold (flexpath_to_oas' h) (flexpath_array cell) w;
          w = fold (robustpath_to_oas' h) (robustpath_array cell) w;
          w = fold (reference_to_oas h cell_name_map) (reference_array cell) w;
          w = fold (label_to_oas h) (label_array cell) w
      in if use_cblock
         then
           let uncompressed_size = (case cursor (out w) of None \<Rightarrow> 0 | Some k \<Rightarrow> k);
               o' = (out w)\<lparr>cursor := None\<rparr>;
               s = zlib_deflate h deflate_level (take uncompressed_size (data o'));
               log = (if init_ok s then [] else [''[GDSTK] Unable to initialize zlib.''])
                     @ (if stream_end s then [] else [''[GDSTK] Unable to compress CBLOCK.'']);
               o' = fputc (record_byte h CBLOCK) o';
               o' = fputc 0 o';
               o' = oasis_write_unsigned_integer o' (of_nat uncompressed_size);
               o' = oasis_write_unsigned_integer o' (of_nat (length (total_out s)));
               o' = fwrite (total_out s) o'
           in w\<lparr>out := o', stderr := stderr w @ log\<rparr>
         else w)"

text \<open>The name tables that follow the cells (lines 365 to 403).\<close>

definition cellname_to_oas ::
  "('poly, 'fpath, 'rpath, 'rep, 'props, 'raw) collaborators \<Rightarrow> 'props Map
     \<Rightarrow> ('poly, 'fpath, 'rpath, 'rep, 'props) Cell_w \<Rightarrow> oas_writer \<Rightarrow> oas_writer" where
  "cellname_to_oas h cell_property_map cell w =
     (let o' = fputc (record_byte h CELLNAME_IMPLICIT) (out w);
          name' = Cell_w.name cell;
          len = length (c_str name');
          o' = oasis_write_unsigned_integer o' (of_nat len);
          o' = fwrite (take len name') o'
      in emit (properties_to_oas h
                 (case Map_get cell_property_map name' of
                    None \<Rightarrow> null_properties h | Some p \<Rightarrow> p))
           (w\<lparr>out := o'\<rparr>))"

definition name_item_to_oas ::
  "byte \<Rightarrow> byte list \<times> 64 word \<Rightarrow> byte list OasisStream \<Rightarrow> byte list OasisStream" where
  "name_item_to_oas rec item o' =
     (let o' = fputc rec o';
          len = length (c_str (fst item));
          o' = oasis_write_unsigned_integer o' (of_nat len);
          o' = fwrite (take len (fst item)) o'
      in oasis_write_unsigned_integer o' (snd item))"

definition propstring_to_oas ::
  "byte \<Rightarrow> byte list \<Rightarrow> byte list OasisStream \<Rightarrow> byte list OasisStream" where
  "propstring_to_oas rec v o' =
     (let o' = fputc rec o';
          o' = oasis_write_unsigned_integer o' (of_nat (length v))
      in fwrite v o')"

text \<open>
  \<^verbatim>\<open>Library::write_oas\<close>, from the END record on (lines 405 to 430). \<open>end_byte\<close> is the
  byte of \<^verbatim>\<open>OasisRecord::END\<close> (\<^verbatim>\<open>fputc\<close> writes one byte whatever its value). The four offsets are the
  values \<^verbatim>\<open>ftell\<close> gave before each name table was written, or 0 for an empty table.
  \<^verbatim>\<open>pad_len\<close> is a \<^verbatim>\<open>uint64_t\<close>: the sum and the difference wrap around.
\<close>

definition write_oas_end ::
  "byte \<Rightarrow> byte list OasisStream \<Rightarrow> 64 word \<Rightarrow> 64 word \<Rightarrow> 64 word \<Rightarrow> 64 word
     \<Rightarrow> byte list OasisStream" where
  "write_oas_end end_byte o' cell_name_offset text_string_offset prop_name_offset
       prop_string_offset =
     (let o' = fputc end_byte o';
          pad_len = 252 + ftell o';
          o' = fputc 1 o';
          o' = oasis_write_unsigned_integer o' cell_name_offset;
          o' = fputc 1 o';
          o' = oasis_write_unsigned_integer o' text_string_offset;
          o' = fputc 1 o';
          o' = oasis_write_unsigned_integer o' prop_name_offset;
          o' = fputc 1 o';
          o' = oasis_write_unsigned_integer o' prop_string_offset;
          o' = fputc 1 o';
          o' = fputc 0 o';
          o' = fputc 1 o';
          o' = fputc 0 o';
          pad_len = pad_len - ftell o';
          o' = oasis_write_unsigned_integer o' pad_len;
          o' = fwrite (replicate (unat pad_len) 0) o'
      in fputc 0 o')"

text \<open>The 18 bytes written first: the magic string, the START record, the version.\<close>

definition oas_header :: "byte \<Rightarrow> byte list" where
  "oas_header start =
     [0x25, 0x53, 0x45, 0x4D, 0x49, 0x2D, 0x4F, 0x41, 0x53, 0x49, 0x53, 0x0D, 0x0A,
      start, 3, 0x31, 0x2E, 0x30]"

text \<open>
  \<^verbatim>\<open>Library::write_oas\<close>. \<open>opened\<close> says whether \<^verbatim>\<open>fopen(filename, "wb")\<close> gave a file.
  The result is the contents of the file written, \<open>None\<close> when no file was opened, and
  what was sent to standard error. The body is split in two: \<open>write_oas_cells\<close> is the
  function up to the last name table, \<open>write_oas_end\<close> the rest.
\<close>

definition write_oas_cells ::
  "('poly, 'fpath, 'rpath, 'rep, 'props, 'raw) collaborators
     \<Rightarrow> ('poly, 'fpath, 'rpath, 'rep, 'props, 'raw) Library_w \<Rightarrow> byte \<Rightarrow> 16 word
     \<Rightarrow> oas_writer \<times> 64 word \<times> 64 word \<times> 64 word \<times> 64 word" where
  "write_oas_cells h lib deflate_level flags =
     (let st = \<lparr>scaling = 0, config_flags = flags, property_name_map = [],
                 property_value_array = []\<rparr>;
          o' = \<lparr>file' = [], data = [], cursor = None\<rparr>;
          o' = fwrite (oas_header (record_byte h START)) o';
          st = st\<lparr>scaling := Library_w.unit lib / precision lib\<rparr>;
          o' = oasis_write (oasis_real_bytes h (1 / 10 ^ 6 / precision lib)) o';
          o' = fputc 1 o';
          w = \<lparr>out = o', state = st, text_string_map = [], stderr = []\<rparr>;
          w = emit (properties_to_oas h (Library_w.properties lib)) w;
          cells = cell_array lib;
          c_size = length cells;
          cell_name_map = fold (\<lambda>(i, cell) m. Map_set m (Cell_w.name cell) (of_nat i))
                            (enumerate 0 cells) [];
          cell_property_map = fold (\<lambda>cell m. Map_set m (Cell_w.name cell)
                                       (Cell_w.properties cell)) cells [];
          use_cblock = (flags AND OASIS_CONFIG_USE_CBLOCK h \<noteq> 0);
          w = fold (cell_to_oas h cell_name_map use_cblock deflate_level) cells w;
          cell_name_offset = (if 0 < c_size then ftell (out w) else 0);
          w = fold (cellname_to_oas h cell_property_map) cells w;
          text_string_offset =
            (if 0 < length (text_string_map w) then ftell (out w) else 0);
          w = w\<lparr>out := fold (name_item_to_oas (record_byte h TEXTSTRING))
                          (text_string_map w) (out w)\<rparr>;
          prop_name_offset =
            (if 0 < length (property_name_map (state w)) then ftell (out w) else 0);
          w = w\<lparr>out := fold (name_item_to_oas (record_byte h PROPNAME))
                          (property_name_map (state w)) (out w)\<rparr>;
          prop_string_offset =
            (if 0 < length (property_value_array (state w)) then ftell (out w) else 0);
          w = w\<lparr>out := fold (propstring_to_oas (record_byte h PROPSTRING_IMPLICIT))
                          (property_value_array (state w)) (out w)\<rparr>
      in (w, cell_name_offset, text_string_offset, prop_name_offset, prop_string_offset))"

definition write_oas ::
  "('poly, 'fpath, 'rpath, 'rep, 'props, 'raw) collaborators
     \<Rightarrow> ('poly, 'fpath, 'rpath, 'rep, 'props, 'raw) Library_w \<Rightarrow> bool \<Rightarrow> real \<Rightarrow> byte
     \<Rightarrow> 16 word \<Rightarrow> byte list option \<times> string list" where
  "write_oas h lib opened tolerance deflate_level flags =
     (if \<not> opened then (None, [''[GDSTK] Unable to open OASIS file for output.''])
      else
        let (w, cell_name_offset, text_string_offset, prop_name_offset, prop_string_offset) =
              write_oas_cells h lib deflate_level flags;
            o' = write_oas_end (record_byte h END) (out w) cell_name_offset
                   text_string_offset prop_name_offset prop_string_offset
        in (Some (file' o'), stderr w))"

text \<open>
  Modelled from the spec: what \<^verbatim>\<open>big_endian_swap16\<close> or \<^verbatim>\<open>big_endian_swap64\<close> followed by
  \<^verbatim>\<open>fwrite\<close> puts in the file (\<^verbatim>\<open>utils.cpp\<close> is not part of the sources). Sections 4.1 and
  9: GDSII is big-endian, each word is written most significant byte first.
\<close>

definition be16 :: "16 word \<Rightarrow> byte list" where
  "be16 v = [ucast (drop_bit 8 v), ucast v]"

definition be64 :: "64 word \<Rightarrow> byte list" where
  "be64 v = map (\<lambda>i. ucast (drop_bit (8 * i) v)) [7, 6, 5, 4, 3, 2, 1, 0]"

text \<open>
  \<^verbatim>\<open>Library::write_gds\<close>. \<open>opened\<close> says whether \<^verbatim>\<open>fopen(filename, "wb")\<close> gave a file;
  \<open>timestamp\<close> is \<open>None\<close> for the null pointer. The name is written with its terminating
  zero byte when its length is odd.
\<close>

definition write_gds ::
  "('poly, 'fpath, 'rpath, 'rep, 'props, 'raw) collaborators
     \<Rightarrow> ('poly, 'fpath, 'rpath, 'rep, 'props, 'raw) Library_w \<Rightarrow> bool \<Rightarrow> 64 word
     \<Rightarrow> tm option \<Rightarrow> byte list option \<times> string list" where
  "write_gds h lib opened max_points timestamp =
     (if \<not> opened then (None, [''[GDSTK] Unable to open GDSII file for output.''])
      else
        let len = length (c_str (Library_w.name lib));
            len = (if len mod 2 \<noteq> 0 then len + 1 else len);
            ts = (case timestamp of None \<Rightarrow> localtime_now h | Some t \<Rightarrow> t);
            buffer_start =
              [6, 0x0002, 0x0258, 28, 0x0102,
               word_of_int (tm_year ts + 1900), word_of_int (tm_mon ts + 1),
               word_of_int (tm_mday ts), word_of_int (tm_hour ts), word_of_int (tm_min ts),
               word_of_int (tm_sec ts),
               word_of_int (tm_year ts + 1900), word_of_int (tm_mon ts + 1),
               word_of_int (tm_mday ts), word_of_int (tm_hour ts), word_of_int (tm_min ts),
               word_of_int (tm_sec ts),
               of_nat (4 + len), 0x0206];
            f = concat (map be16 buffer_start);
            f = f @ take len (c_str (Library_w.name lib) @ [0]);
            f = f @ concat (map be16 [20, 0x0305]);
            f = f @ concat (map be64
                  [gdsii_real_from_double h (precision lib / Library_w.unit lib),
                   gdsii_real_from_double h (precision lib)]);
            scaling' = Library_w.unit lib / precision lib;
            f = fold (\<lambda>cell f. f @ cell_to_gds h cell scaling' max_points (precision lib) ts)
                  (cell_array lib) f;
            f = fold (\<lambda>rawcell f. f @ rawcell_to_gds h rawcell) (rawcell_array lib) f;
            f = f @ concat (map be16 [4, 0x0400])
        in (Some f, []))"

subsection \<open>Properties of the OASIS writer\<close>

text \<open>
  To state them: \<open>written\<close> is the byte sequence that \<^verbatim>\<open>oasis_write\<close> appends to (the file,
  or the buffer while a CBLOCK is staged); \<open>table_offsets\<close> is the table that follows the
  END byte, six entries of a flag byte and an unsigned integer (the last two entries are
  the bytes 1, 0 for the LAYERNAME and XNAME tables); \<open>write_table_offsets\<close> is the
  sequence of calls that writes it.
\<close>

definition written :: "byte list OasisStream \<Rightarrow> byte list" where
  "written o' = (case cursor o' of None \<Rightarrow> file' o' | Some k \<Rightarrow> data o')"


definition table_offsets :: "64 word \<Rightarrow> 64 word \<Rightarrow> 64 word \<Rightarrow> 64 word \<Rightarrow> byte list" where
  "table_offsets o1 o2 o3 o4 =
     [1] @ unsigned_integer_bytes (unat o1) @ [1] @ unsigned_integer_bytes (unat o2)
     @ [1] @ unsigned_integer_bytes (unat o3) @ [1] @ unsigned_integer_bytes (unat o4)
     @ [1, 0, 1, 0]"


definition write_table_offsets ::
  "byte list OasisStream \<Rightarrow> 64 word \<Rightarrow> 64 word \<Rightarrow> 64 word \<Rightarrow> 64 word
     \<Rightarrow> byte list OasisStream" where
  "write_table_offsets s o1 o2 o3 o4 =
     fputc 0 (fputc 1 (fputc 0 (fputc 1
       (oasis_write_unsigned_integer (fputc 1
         (oasis_write_unsigned_integer (fputc 1
           (oasis_write_unsigned_integer (fputc 1
             (oasis_write_unsigned_integer (fputc 1 s) o1)) o2)) o3)) o4))))"


lemma unsigned_integer_bytes_nonempty: "unsigned_integer_bytes n \<noteq> []"
  by (subst unsigned_integer_bytes.simps) simp

lemma unsigned_integer_bytes_length_le:
  "n < 128 ^ k \<Longrightarrow> 0 < k \<Longrightarrow> length (unsigned_integer_bytes n) \<le> k"
proof (induction k arbitrary: n)
  case 0
  then show ?case by simp
next
  case (Suc k)
  show ?case
  proof (cases "n < 128")
    case True
    then show ?thesis by (subst unsigned_integer_bytes.simps) simp
  next
    case False
    then have k: "0 < k" using Suc.prems by (cases k) auto
    have "n div 128 < 128 ^ k" using Suc.prems(1) by (simp add: less_mult_imp_div_less mult.commute)
    then have "length (unsigned_integer_bytes (n div 128)) \<le> k" using Suc.IH k by blast
    with False show ?thesis by (subst unsigned_integer_bytes.simps) simp
  qed
qed
lemma unsigned_integer_bytes_two:
  "128 \<le> n \<Longrightarrow> n < 16384 \<Longrightarrow> length (unsigned_integer_bytes n) = 2"
  by (subst unsigned_integer_bytes.simps, subst unsigned_integer_bytes.simps) (simp add: less_mult_imp_div_less)

lemma length_ge1: "xs \<noteq> [] \<Longrightarrow> 1 \<le> length xs" by (cases xs) auto

lemma unsigned_integer_bytes_length_word:
  "length (unsigned_integer_bytes (unat (v :: 64 word))) \<le> 10"
proof -
  have "unat v < 2 ^ 64" using unsigned_less [of v] by simp
  also have "(2::nat) ^ 64 \<le> 128 ^ 10" by simp
  finally show ?thesis using unsigned_integer_bytes_length_le [of "unat v" 10] by simp
qed

lemma table_offsets_length:
  "12 \<le> length (table_offsets o1 o2 o3 o4) \<and> length (table_offsets o1 o2 o3 o4) \<le> 48"
proof -
  have a: "length (unsigned_integer_bytes (unat w)) \<le> 10 \<and> 1 \<le> length (unsigned_integer_bytes (unat w))"
    for w :: "64 word"
    using unsigned_integer_bytes_length_word [of w]
      length_ge1 [OF unsigned_integer_bytes_nonempty [of "unat w"]] by simp
  have "length (table_offsets o1 o2 o3 o4) =
      8 + length (unsigned_integer_bytes (unat o1)) + length (unsigned_integer_bytes (unat o2))
        + length (unsigned_integer_bytes (unat o3)) + length (unsigned_integer_bytes (unat o4))"
    by (simp add: table_offsets_def)
  then show ?thesis using a [of o1] a [of o2] a [of o3] a [of o4] by linarith
qed

lemma file_fputc: "file' (fputc c o') = file' o' @ [c]" by (simp add: fputc_def)
lemma file_fwrite: "file' (fwrite b o') = file' o' @ b" by (simp add: fwrite_def)
lemma cursor_fputc: "cursor (fputc c o') = cursor o'" by (simp add: fputc_def)
lemma cursor_fwrite: "cursor (fwrite b o') = cursor o'" by (simp add: fwrite_def)
lemma file_unsigned_integer:
  "cursor o' = None \<Longrightarrow>
   file' (oasis_write_unsigned_integer o' v) = file' o' @ unsigned_integer_bytes (unat v)"
  by (simp add: oasis_write_unsigned_integer_def oasis_write_def fwrite_def)
lemma cursor_unsigned_integer_None:
  "cursor o' = None \<Longrightarrow> cursor (oasis_write_unsigned_integer o' v) = None"
  by (simp add: oasis_write_unsigned_integer_def oasis_write_def fwrite_def)

lemma write_oas_end_steps:
  "write_oas_end e o' o1 o2 o3 o4 =
     fputc 0
       (fwrite (replicate (unat (252 + ftell (fputc e o')
                  - ftell (write_table_offsets (fputc e o') o1 o2 o3 o4))) 0)
         (oasis_write_unsigned_integer (write_table_offsets (fputc e o') o1 o2 o3 o4)
            (252 + ftell (fputc e o')
               - ftell (write_table_offsets (fputc e o') o1 o2 o3 o4))))"
  by (simp add: write_oas_end_def Let_def write_table_offsets_def)

lemma write_table_offsets_file:
  "cursor s = None \<Longrightarrow>
   file' (write_table_offsets s o1 o2 o3 o4) = file' s @ table_offsets o1 o2 o3 o4
   \<and> cursor (write_table_offsets s o1 o2 o3 o4) = None"
  by (simp add: write_table_offsets_def file_fputc cursor_fputc file_unsigned_integer
      cursor_unsigned_integer_None table_offsets_def)

lemma pad_len_value:
  assumes "cursor o' = None"
  shows "unat (252 + ftell (fputc e o')
             - ftell (write_table_offsets (fputc e o') o1 o2 o3 o4))
         = 252 - length (table_offsets o1 o2 o3 o4)"
proof -
  let ?t = "table_offsets o1 o2 o3 o4"
  have c: "cursor (fputc e o') = None" using assms by (simp add: cursor_fputc)
  have len: "12 \<le> length ?t" "length ?t \<le> 48"
    using table_offsets_length [of o1 o2 o3 o4] by simp_all
  have "ftell (write_table_offsets (fputc e o') o1 o2 o3 o4)
        = ftell (fputc e o') + of_nat (length ?t)"
    using write_table_offsets_file [OF c, of o1 o2 o3 o4] by (simp add: ftell_def)
  then have "252 + ftell (fputc e o')
             - ftell (write_table_offsets (fputc e o') o1 o2 o3 o4)
        = 252 - of_nat (length ?t)"
    by simp
  also have "\<dots> = of_nat (252 - length ?t)"
    using len by (simp add: of_nat_diff)
  finally have e: "word_of_nat (252 - length ?t) = 252 + ftell (fputc e o')
             - ftell (write_table_offsets (fputc e o') o1 o2 o3 o4)"
    by (rule sym)
  show ?thesis
  proof (rule of_nat_inverse [OF e])
    show "252 - length ?t < 2 ^ LENGTH(64)" by simp
  qed
qed

lemma write_oas_end_file:
  assumes "cursor o' = None"
  shows "file' (write_oas_end e o' o1 o2 o3 o4) =
      file' o' @ [e] @ table_offsets o1 o2 o3 o4
      @ unsigned_integer_bytes (252 - length (table_offsets o1 o2 o3 o4))
      @ replicate (252 - length (table_offsets o1 o2 o3 o4)) 0 @ [0]"
proof -
  have c: "cursor (fputc e o') = None" using assms by (simp add: cursor_fputc)
  note t = write_table_offsets_file [OF c, of o1 o2 o3 o4]
  show ?thesis
    using t
    by (simp add: write_oas_end_steps pad_len_value [OF assms] file_fputc file_fwrite
        file_unsigned_integer)
qed

lemma write_oas_end_length:
  assumes "cursor o' = None"
  shows "length (file' (write_oas_end e o' o1 o2 o3 o4)) = length (file' o') + 256"
proof -
  have len: "12 \<le> length (table_offsets o1 o2 o3 o4)" "length (table_offsets o1 o2 o3 o4) \<le> 48"
    using table_offsets_length [of o1 o2 o3 o4] by simp_all
  then have "length (unsigned_integer_bytes (252 - length (table_offsets o1 o2 o3 o4))) = 2"
    by (intro unsigned_integer_bytes_two) auto
  then show ?thesis using len by (simp add: write_oas_end_file [OF assms])
qed

lemma written_oasis_write: "written (oasis_write b o') = written o' @ b"
  by (simp add: written_def oasis_write_def fwrite_def split: option.splits)

lemma written_oasis_putc: "written (oasis_putc c o') = written o' @ [c]"
  by (simp add: oasis_putc_def written_oasis_write)

lemma written_unsigned_integer:
  "written (oasis_write_unsigned_integer o' v) = written o' @ unsigned_integer_bytes (unat v)"
  by (simp add: oasis_write_unsigned_integer_def written_oasis_write)

lemma out_emit: "out (emit f w) = oasis_write (fst (f (state w))) (out w)"
  by (simp add: emit_def split: prod.splits)


lemma quadrant_neg: "m < 0 \<Longrightarrow> 3 AND (m smod 4 + 4) = m mod (4::int)"
proof -
  assume m: "m < 0"
  define r where "r = (- m) mod 4"
  have r: "r = 0 \<or> r = 1 \<or> r = 2 \<or> r = 3" unfolding r_def by presburger
  have s: "m smod 4 = - r" using m by (simp add: smod_int_alt_def r_def sgn_if)
  have md: "m mod 4 = (- r) mod 4" unfolding r_def by (simp add: mod_minus_eq)
  from r show ?thesis unfolding s md by (elim disjE) simp_all
qed

lemma quadrant_pos: "0 \<le> m \<Longrightarrow> 3 AND (m smod 4) = m mod (4::int)"
proof -
  assume m: "0 \<le> m"
  define r where "r = m mod 4"
  have r: "r = 0 \<or> r = 1 \<or> r = 2 \<or> r = 3" unfolding r_def by presburger
  have s: "m smod 4 = r" using m by (simp add: smod_mod_positive r_def)
  from r show ?thesis unfolding s r_def [symmetric] by (elim disjE) simp_all
qed



lemma reference_written:
  assumes "Reference_w.type ref \<noteq> RawCell"
  shows "written (out (reference_to_oas h cmap ref w)) =
     written (out w) @
     (case (if magnification ref = 1 then is_multiple_of_pi_over_2 h (rotation ref) else None) of
        Some m \<Rightarrow>
          [record_byte h PLACEMENT,
           0xF0 OR (if 1 < get_size h (Reference_w.repetition ref) then 0x08 else 0)
                OR (if x_reflection ref then 0x01 else 0)
                OR push_bit 1 (word_of_int (m mod 4))]
          @ unsigned_integer_bytes
              (unat (case Map_get cmap (target_name ref) of None \<Rightarrow> 0 | Some i \<Rightarrow> i))
      | None \<Rightarrow>
          [record_byte h PLACEMENT_TRANSFORM,
           0xF0 OR (if 1 < get_size h (Reference_w.repetition ref) then 0x08 else 0)
                OR (if x_reflection ref then 0x01 else 0)
                OR (if magnification ref \<noteq> 1 then 0x04 else 0)
                OR (if rotation ref \<noteq> 0 then 0x02 else 0)]
          @ unsigned_integer_bytes
              (unat (case Map_get cmap (target_name ref) of None \<Rightarrow> 0 | Some i \<Rightarrow> i))
          @ (if magnification ref \<noteq> 1 then oasis_real_bytes h (magnification ref) else [])
          @ (if rotation ref \<noteq> 0 then oasis_real_bytes h (rotation ref * (180 / pi)) else []))
     @ oasis_integer_bytes h (llround_scaled h (fst (Reference_w.origin ref)) (scaling (state w)))
     @ oasis_integer_bytes h (llround_scaled h (snd (Reference_w.origin ref)) (scaling (state w)))
     @ (if 1 < get_size h (Reference_w.repetition ref)
        then oasis_repetition_bytes h (Reference_w.repetition ref) (scaling (state w)) else [])
     @ fst (properties_to_oas h (Reference_w.properties ref) (state w))"
proof (cases "if magnification ref = 1 then is_multiple_of_pi_over_2 h (rotation ref) else None")
  case None
  then show ?thesis
    using assms
    by (simp add: reference_to_oas_def Let_def out_emit written_oasis_write written_oasis_putc
      written_unsigned_integer flip: or.assoc)
next
  case (Some m)
  then show ?thesis
    using assms
    by (cases "m < 0")
      (simp_all add: reference_to_oas_def Let_def out_emit written_oasis_write written_oasis_putc
      written_unsigned_integer quadrant_neg quadrant_pos flip: or.assoc)
qed

lemma label_written:
  "written (out (label_to_oas h label w)) =
     written (out w) @
     [record_byte h TEXT,
      0x7B OR (if 1 < get_size h (Label_w.repetition label) then 0x04 else 0)]
     @ unsigned_integer_bytes
         (unat (if Map_has_key (text_string_map w) (text' label)
                then (case Map_get (text_string_map w) (text' label) of
                        None \<Rightarrow> 0 | Some i \<Rightarrow> i)
                else of_nat (length (text_string_map w)) :: 64 word))
     @ unsigned_integer_bytes (unat (layer label))
     @ unsigned_integer_bytes (unat (texttype label))
     @ oasis_integer_bytes h (llround_scaled h (fst (Label_w.origin label)) (scaling (state w)))
     @ oasis_integer_bytes h (llround_scaled h (snd (Label_w.origin label)) (scaling (state w)))
     @ (if 1 < get_size h (Label_w.repetition label)
        then oasis_repetition_bytes h (Label_w.repetition label) (scaling (state w)) else [])
     @ fst (properties_to_oas h (Label_w.properties label) (state w))"
  by (simp add: label_to_oas_def Let_def out_emit written_oasis_write written_oasis_putc
      written_unsigned_integer split: prod.splits)

lemma cursor_oasis_write: "(cursor (oasis_write b o') = None) = (cursor o' = None)"
  by (simp add: oasis_write_def fwrite_def split: option.splits)

lemma cursor_oasis_putc: "(cursor (oasis_putc b o') = None) = (cursor o' = None)"
  by (simp add: oasis_putc_def cursor_oasis_write)

lemma cursor_unsigned_integer:
  "(cursor (oasis_write_unsigned_integer o' v) = None) = (cursor o' = None)"
  by (simp add: oasis_write_unsigned_integer_def cursor_oasis_write)

lemmas cursor_simps = cursor_fputc cursor_fwrite cursor_oasis_write cursor_oasis_putc
  cursor_unsigned_integer

lemma cursor_emit: "(cursor (out (emit f w)) = None) = (cursor (out w) = None)"
  by (simp add: out_emit cursor_oasis_write)

lemma cursor_fold:
  assumes "\<And>x w. (cursor (out (f x w)) = None) = (cursor (out w) = None)"
  shows "(cursor (out (fold f xs w)) = None) = (cursor (out w) = None)"
  by (induction xs arbitrary: w) (simp_all add: assms)

lemma cursor_fold_stream:
  assumes "\<And>x o'. (cursor (f x o') = None) = (cursor o' = None)"
  shows "(cursor (fold f xs o') = None) = (cursor o' = None)"
  by (induction xs arbitrary: o') (simp_all add: assms)

lemma cursor_reference:
  "(cursor (out (reference_to_oas h cmap ref w)) = None) = (cursor (out w) = None)"
  by (simp add: reference_to_oas_def Let_def cursor_emit cursor_oasis_write cursor_oasis_putc
      cursor_unsigned_integer split: option.splits)

lemma cursor_label:
  "(cursor (out (label_to_oas h label w)) = None) = (cursor (out w) = None)"
  by (simp add: label_to_oas_def Let_def cursor_emit cursor_oasis_write cursor_oasis_putc
      cursor_unsigned_integer split: prod.splits)

lemma cursor_flexpath:
  "(cursor (out (flexpath_to_oas' h p w)) = None) = (cursor (out w) = None)"
  by (simp add: flexpath_to_oas'_def cursor_emit cursor_fold)

lemma cursor_robustpath:
  "(cursor (out (robustpath_to_oas' h p w)) = None) = (cursor (out w) = None)"
  by (simp add: robustpath_to_oas'_def cursor_emit cursor_fold)

lemma cursor_cell:
  "cursor (out w) = None \<Longrightarrow> cursor (out (cell_to_oas h cmap use_cblock lvl cell w)) = None"
  by (simp add: cell_to_oas_def Let_def cursor_fold cursor_emit cursor_reference cursor_label
      cursor_flexpath cursor_robustpath cursor_simps)

lemma cursor_cells:
  "cursor (out w) = None \<Longrightarrow>
   cursor (out (fold (cell_to_oas h cmap use_cblock lvl) cells w)) = None"
  by (induction cells arbitrary: w) (simp_all add: cursor_cell)

lemma cursor_cellname:
  "(cursor (out (cellname_to_oas h pm cell w)) = None) = (cursor (out w) = None)"
  by (simp add: cellname_to_oas_def Let_def cursor_emit cursor_simps)

lemma cursor_name_item:
  "(cursor (name_item_to_oas r item o') = None) = (cursor o' = None)"
  by (simp add: name_item_to_oas_def Let_def cursor_simps)

lemma cursor_propstring:
  "(cursor (propstring_to_oas r v o') = None) = (cursor o' = None)"
  by (simp add: propstring_to_oas_def Let_def cursor_simps)

lemma cursor_write_oas_cells:
  "cursor (out (fst (write_oas_cells h lib lvl flags))) = None"
  by (simp add: write_oas_cells_def Let_def cursor_fold_stream cursor_name_item
      cursor_propstring cursor_fold cursor_cellname cursor_cells cursor_emit cursor_simps)

lemma mask_kept: "((a :: byte) OR x) AND a = a"
  by (rule bit_eqI) (auto simp add: bit_and_iff bit_or_iff)

lemma mask_kept_F0: "(0xF0 OR (x :: byte)) AND 0xF0 = 0xF0"
  by (rule mask_kept)

lemma mask_kept_7B: "(0x7B OR (x :: byte)) AND 0x7B = 0x7B"
  by (rule mask_kept)

subsection \<open>Closed examples for the writer\<close>

text \<open>
  For the closed examples: the record numbers of the OASIS standard (the magic string
  that \<^verbatim>\<open>read_oas\<close> compares the header with ends in \<^verbatim>\<open>\x01\<close>, the START record), and
  collaborators that write nothing.
\<close>

definition oasis_record_number :: "OasisRecord \<Rightarrow> byte" where
  "oasis_record_number r =
     (case r of
        PAD \<Rightarrow> 0
      | START \<Rightarrow> 1
      | END \<Rightarrow> 2
      | CELLNAME_IMPLICIT \<Rightarrow> 3
      | CELLNAME \<Rightarrow> 4
      | TEXTSTRING_IMPLICIT \<Rightarrow> 5
      | TEXTSTRING \<Rightarrow> 6
      | PROPNAME_IMPLICIT \<Rightarrow> 7
      | PROPNAME \<Rightarrow> 8
      | PROPSTRING_IMPLICIT \<Rightarrow> 9
      | PROPSTRING \<Rightarrow> 10
      | LAYERNAME_DATA \<Rightarrow> 11
      | LAYERNAME_TEXT \<Rightarrow> 12
      | CELL_REF_NUM \<Rightarrow> 13
      | CELL \<Rightarrow> 14
      | XYABSOLUTE \<Rightarrow> 15
      | XYRELATIVE \<Rightarrow> 16
      | PLACEMENT \<Rightarrow> 17
      | PLACEMENT_TRANSFORM \<Rightarrow> 18
      | TEXT \<Rightarrow> 19
      | RECTANGLE \<Rightarrow> 20
      | POLYGON \<Rightarrow> 21
      | PATH \<Rightarrow> 22
      | TRAPEZOID_AB \<Rightarrow> 23
      | TRAPEZOID_A \<Rightarrow> 24
      | TRAPEZOID_B \<Rightarrow> 25
      | CTRAPEZOID \<Rightarrow> 26
      | CIRCLE \<Rightarrow> 27
      | PROPERTY \<Rightarrow> 28
      | LAST_PROPERTY \<Rightarrow> 29
      | XNAME_IMPLICIT \<Rightarrow> 30
      | XNAME \<Rightarrow> 31
      | XELEMENT \<Rightarrow> 32
      | XGEOMETRY \<Rightarrow> 33
      | CBLOCK \<Rightarrow> 34)"

definition example_collaborators :: "(unit, unit, unit, nat, unit, unit) collaborators" where
  "example_collaborators =
     \<lparr>record_byte = oasis_record_number,
      OASIS_CONFIG_USE_CBLOCK = 1,
      oasis_real_bytes = (\<lambda>x. []),
      oasis_integer_bytes = (\<lambda>i. unsigned_integer_bytes (unat i)),
      oasis_repetition_bytes = (\<lambda>r s. []),
      get_size = of_nat,
      is_multiple_of_pi_over_2 = (\<lambda>a. if a = 0 then Some 0 else None),
      llround_scaled = (\<lambda>x s. 0),
      properties_to_oas = (\<lambda>p st. ([], st)),
      polygon_to_oas = (\<lambda>p st. ([], st)),
      flexpath_to_oas = (\<lambda>p st. ([], st)),
      flexpath_to_polygons = (\<lambda>p. []),
      robustpath_to_oas = (\<lambda>p st. ([], st)),
      robustpath_to_polygons = (\<lambda>p. []),
      null_properties = (),
      zlib_deflate = (\<lambda>l b. \<lparr>init_ok = True, stream_end = True, total_out = b\<rparr>),
      gdsii_real_from_double = (\<lambda>x. 0),
      cell_to_gds = (\<lambda>c s m p t. []),
      rawcell_to_gds = (\<lambda>r. []),
      localtime_now = \<lparr>tm_year = 126, tm_mon = 9, tm_mday = 30, tm_hour = 0, tm_min = 0,
                        tm_sec = 0\<rparr>\<rparr>"

definition example_reference :: "(nat, unit) Reference_w" where
  "example_reference =
     \<lparr>type = Cell, target_name = [0x43], origin = (3, 4), rotation = 0,
      magnification = 1, x_reflection = False, repetition = 0, properties = ()\<rparr>"

definition example_writer :: oas_writer where
  "example_writer =
     \<lparr>out = \<lparr>file' = [], data = [], cursor = None\<rparr>,
      state = \<lparr>scaling = 1000, config_flags = 0, property_name_map = [],
                property_value_array = []\<rparr>,
      text_string_map = [], stderr = []\<rparr>"

definition example_reference_scaled :: "(nat, unit) Reference_w" where
  "example_reference_scaled = example_reference\<lparr>magnification := 2\<rparr>"

definition example_label :: "(nat, unit) Label_w" where
  "example_label =
     \<lparr>text' = [0x54], layer = 1, texttype = 2, origin = (0, 0), repetition = 0,
      properties = ()\<rparr>"

definition example_library :: "(unit, unit, unit, nat, unit, unit) Library_w" where
  "example_library =
     \<lparr>name = [0x4C], unit = 1 / 10 ^ 6, precision = 1 / 10 ^ 9, cell_array = [],
      rawcell_array = [], properties = ()\<rparr>"


lemma unsigned_integer_bytes_small: "n < 128 \<Longrightarrow> unsigned_integer_bytes n = [of_nat n]"
  by (subst unsigned_integer_bytes.simps) simp


lemma example_write_oas_cells:
  "write_oas_cells example_collaborators example_library 0 0 =
     (\<lparr>out = \<lparr>file' = oas_header 1 @ [1], data = [], cursor = None\<rparr>,
       state = \<lparr>scaling = 1000, config_flags = 0, property_name_map = [],
                 property_value_array = []\<rparr>,
       text_string_map = [], stderr = []\<rparr>, 0, 0, 0, 0)"
  by (simp add: write_oas_cells_def Let_def example_collaborators_def example_library_def
      emit_def oasis_write_def fwrite_def fputc_def oasis_record_number_def)

subsection \<open>No modal variables in what the writer emits\<close>

text \<open>
  Claim C10. Every PLACEMENT or \<^verbatim>\<open>PLACEMENT_TRANSFORM\<close> record written has the bits 0xF0 of
  its info byte set, and the cell number, x and y follow; a reference to a RawCell writes
  nothing. Every TEXT record written has the bits 0x7B of its info byte set, and the
  text-string number, the layer, the text type, x and y follow.
\<close>

theorem write_oas_explicit_info_bits:
  "(Reference_w.type ref \<noteq> RawCell \<longrightarrow>
      (\<exists>rec info mid.
          written (out (reference_to_oas h cell_name_map ref w)) =
            written (out w) @ [rec, info]
            @ unsigned_integer_bytes
                (unat (case Map_get cell_name_map (target_name ref) of
                         None \<Rightarrow> 0 | Some i \<Rightarrow> i))
            @ mid
            @ oasis_integer_bytes h
                (llround_scaled h (fst (Reference_w.origin ref)) (scaling (state w)))
            @ oasis_integer_bytes h
                (llround_scaled h (snd (Reference_w.origin ref)) (scaling (state w)))
            @ (if 1 < get_size h (Reference_w.repetition ref)
               then oasis_repetition_bytes h (Reference_w.repetition ref) (scaling (state w))
               else [])
            @ fst (properties_to_oas h (Reference_w.properties ref) (state w))
        \<and> (rec = record_byte h PLACEMENT \<or> rec = record_byte h PLACEMENT_TRANSFORM)
        \<and> info AND 0xF0 = 0xF0))
   \<and> (Reference_w.type ref = RawCell \<longrightarrow> out (reference_to_oas h cell_name_map ref w) = out w)
   \<and> (\<exists>info index.
          written (out (label_to_oas h label w)) =
            written (out w) @ [record_byte h TEXT, info]
            @ unsigned_integer_bytes (unat (index :: 64 word))
            @ unsigned_integer_bytes (unat (layer label))
            @ unsigned_integer_bytes (unat (texttype label))
            @ oasis_integer_bytes h
                (llround_scaled h (fst (Label_w.origin label)) (scaling (state w)))
            @ oasis_integer_bytes h
                (llround_scaled h (snd (Label_w.origin label)) (scaling (state w)))
            @ (if 1 < get_size h (Label_w.repetition label)
               then oasis_repetition_bytes h (Label_w.repetition label) (scaling (state w))
               else [])
            @ fst (properties_to_oas h (Label_w.properties label) (state w))
        \<and> info AND 0x7B = 0x7B)"
proof (intro conjI impI)
  assume t: "Reference_w.type ref \<noteq> RawCell"
  show "\<exists>rec info mid.
          written (out (reference_to_oas h cell_name_map ref w)) =
            written (out w) @ [rec, info]
            @ unsigned_integer_bytes
                (unat (case Map_get cell_name_map (target_name ref) of
                         None \<Rightarrow> 0 | Some i \<Rightarrow> i))
            @ mid
            @ oasis_integer_bytes h
                (llround_scaled h (fst (Reference_w.origin ref)) (scaling (state w)))
            @ oasis_integer_bytes h
                (llround_scaled h (snd (Reference_w.origin ref)) (scaling (state w)))
            @ (if 1 < get_size h (Reference_w.repetition ref)
               then oasis_repetition_bytes h (Reference_w.repetition ref) (scaling (state w))
               else [])
            @ fst (properties_to_oas h (Reference_w.properties ref) (state w))
        \<and> (rec = record_byte h PLACEMENT \<or> rec = record_byte h PLACEMENT_TRANSFORM)
        \<and> info AND 0xF0 = 0xF0"
  proof (cases "if magnification ref = 1 then is_multiple_of_pi_over_2 h (rotation ref)
                else None")
    case None
    show ?thesis
      apply (rule exI [of _ "record_byte h PLACEMENT_TRANSFORM"])
      apply (rule exI [of _ "0xF0 OR (if 1 < get_size h (Reference_w.repetition ref) then 0x08 else 0)
                OR (if x_reflection ref then 0x01 else 0)
                OR (if magnification ref \<noteq> 1 then 0x04 else 0)
                OR (if rotation ref \<noteq> 0 then 0x02 else 0)"])
      apply (rule exI [of _ "(if magnification ref \<noteq> 1 then oasis_real_bytes h (magnification ref) else [])
            @ (if rotation ref \<noteq> 0
               then oasis_real_bytes h (rotation ref * (180 / pi)) else [])"])
      apply (intro conjI)
        apply (simp only: reference_written [OF t] None option.case append_assoc)
       apply simp
      apply (rule mask_kept_F0)
      done
  next
    case (Some m)
    show ?thesis
      apply (rule exI [of _ "record_byte h PLACEMENT"])
      apply (rule exI [of _ "0xF0 OR (if 1 < get_size h (Reference_w.repetition ref) then 0x08 else 0)
                OR (if x_reflection ref then 0x01 else 0)
                OR push_bit 1 (word_of_int (m mod 4))"])
      apply (rule exI [of _ "[]"])
      apply (intro conjI)
        apply (simp only: reference_written [OF t] Some option.case append_assoc append_Nil)
       apply simp
      apply (rule mask_kept_F0)
      done
  qed
next
  assume "Reference_w.type ref = RawCell"
  then show "out (reference_to_oas h cell_name_map ref w) = out w"
    by (simp add: reference_to_oas_def)
next
  show "\<exists>info index.
          written (out (label_to_oas h label w)) =
            written (out w) @ [record_byte h TEXT, info]
            @ unsigned_integer_bytes (unat (index :: 64 word))
            @ unsigned_integer_bytes (unat (layer label))
            @ unsigned_integer_bytes (unat (texttype label))
            @ oasis_integer_bytes h
                (llround_scaled h (fst (Label_w.origin label)) (scaling (state w)))
            @ oasis_integer_bytes h
                (llround_scaled h (snd (Label_w.origin label)) (scaling (state w)))
            @ (if 1 < get_size h (Label_w.repetition label)
               then oasis_repetition_bytes h (Label_w.repetition label) (scaling (state w))
               else [])
            @ fst (properties_to_oas h (Label_w.properties label) (state w))
        \<and> info AND 0x7B = 0x7B"
    apply (rule exI [of _ "0x7B OR (if 1 < get_size h (Label_w.repetition label) then 0x04 else 0)"])
    apply (rule exI [of _ "if Map_has_key (text_string_map w) (text' label)
                then (case Map_get (text_string_map w) (text' label) of
                        None \<Rightarrow> 0 | Some i \<Rightarrow> i)
                else of_nat (length (text_string_map w))"])
    apply (intro conjI)
     apply (simp only: label_written append_assoc)
    apply (rule mask_kept_7B)
    done
qed

theorem write_oas_explicit_info_bits_witness:
  "Reference_w.type example_reference \<noteq> RawCell
   \<and> (\<exists>rec info mid.
         written (out (reference_to_oas example_collaborators [] example_reference
                    example_writer)) = [rec, info, 0] @ mid @ [0, 0]
         \<and> (rec = 17 \<or> rec = 18) \<and> info AND 0xF0 = 0xF0)
   \<and> (\<exists>info index.
         written (out (label_to_oas example_collaborators example_label example_writer)) =
           [19, info] @ unsigned_integer_bytes (unat (index :: 64 word)) @ [1, 2, 0, 0]
         \<and> info AND 0x7B = 0x7B)"
  using write_oas_explicit_info_bits [of example_reference example_collaborators "[]"
      example_writer example_label]
  by (simp add: example_reference_def example_label_def example_collaborators_def
      example_writer_def written_def Map_get_def unsigned_integer_bytes_small
      oasis_record_number_def)

subsection \<open>The length of an OASIS file\<close>

text \<open>
  Claim C4. The file that \<^verbatim>\<open>write_oas\<close> writes is what was written before the END record,
  the END byte, the table of six offsets, the pad length as an unsigned integer, that
  many zero bytes, and a last zero byte; its length is the offset of the END byte plus
  256.
\<close>

theorem write_oas_file_length:
  assumes "write_oas_cells h lib deflate_level flags = (w, o1, o2, o3, o4)"
  shows "\<exists>f. fst (write_oas h lib True tolerance deflate_level flags) = Some f
     \<and> f = file' (out w) @ [record_byte h END] @ table_offsets o1 o2 o3 o4
           @ unsigned_integer_bytes (252 - length (table_offsets o1 o2 o3 o4))
           @ replicate (252 - length (table_offsets o1 o2 o3 o4)) 0 @ [0]
     \<and> length f = length (file' (out w)) + 256
     \<and> last f = 0"
proof -
  have c: "cursor (out w) = None"
    using cursor_write_oas_cells [of h lib deflate_level flags] assms by simp
  have f: "fst (write_oas h lib True tolerance deflate_level flags) =
      Some (file' (write_oas_end (record_byte h END) (out w) o1 o2 o3 o4))"
    by (simp add: write_oas_def assms)
  show ?thesis
    unfolding f
    using write_oas_end_length [OF c, of "record_byte h END" o1 o2 o3 o4]
    by (simp add: write_oas_end_file [OF c])
qed

theorem write_oas_file_length_witness:
  "\<exists>f. fst (write_oas example_collaborators example_library True 0 0 0) = Some f
      \<and> length f = 19 + 256 \<and> last f = 0"
  using write_oas_file_length [OF example_write_oas_cells, of 0]
  by (simp add: oas_header_def)

subsection \<open>The run of \<^verbatim>\<open>write_oas\<close> through the references\<close>




















subsection \<open>PLACEMENT or \<^verbatim>\<open>PLACEMENT_TRANSFORM\<close>\<close>



section \<open>The GDSII reader\<close>

text \<open>
  \<^verbatim>\<open>read_gds\<close> (lines 442 to 808). The input of the model is the stream of records that
  the successive calls of \<^verbatim>\<open>gdsii_read_record\<close> give until one returns 0, each record
  after the byte swap that its data type asks for: a record is its type together with
  the values the handler reads, the 16-bit, 32-bit or 64-bit words of the views
  \<^verbatim>\<open>data16\<close>, \<^verbatim>\<open>data32\<close>, \<^verbatim>\<open>data64\<close>, or the bytes of \<^verbatim>\<open>str\<close> (their number is
  \<^verbatim>\<open>data_length\<close>). A record whose data type does not fit its record type, or that holds
  fewer words than its handler reads at fixed positions, is outside the model.
  \<open>Other b\<close> is a record of any type \<open>b\<close> that the \<^verbatim>\<open>switch\<close> has no case for.
\<close>

datatype GdsiiRecord =
    HEADER | BGNLIB | ENDSTR
  | LIBNAME "byte list"
  | UNITS "64 word" "64 word"
  | ENDLIB
  | BGNSTR
  | STRNAME "byte list"
  | BOUNDARY | BOX
  | PATH
  | SREF | AREF
  | TEXT
  | LAYER "16 word"
  | DATATYPE "16 word"
  | BOXTYPE "16 word"
  | WIDTH "32 word"
  | XY "32 word list"
  | ENDEL
  | SNAME "byte list"
  | COLROW "16 word" "16 word"
  | TEXTTYPE "16 word"
  | PRESENTATION "16 word"
  | STRING "byte list"
  | STRANS "16 word"
  | MAG "64 word"
  | ANGLE "64 word"
  | PATHTYPE "16 word"
  | PROPATTR "16 word"
  | PROPVALUE "byte list"
  | BGNEXTN "32 word"
  | ENDEXTN "32 word"
  | Other byte

text \<open>
  The objects that the reader allocates. A pointer is the index of its object in the list
  of the objects of its class, in the order of allocation; \<open>None\<close> is the null pointer.
  \<^verbatim>\<open>allocate_clear\<close> zero-fills: pointers are null, numbers 0, flags false, and an
  enumeration has the value 0, taken to be its first enumerator in the source's order of
  cases (\<open>Cell\<close>, \<open>Flush\<close>, \<open>None'\<close>; the headers are not part of the sources).

  The model keeps the fields below. It leaves out the property lists
  (\<^verbatim>\<open>set_gds_property\<close> is not part of the sources), the origins of references and labels,
  the vectors of a repetition, the local \<^verbatim>\<open>width\<close> and the widths and points of a path
  (\<^verbatim>\<open>FlexPath::segment\<close> is not part of the sources): no field that is kept is computed
  from one that is left out. An array is taken to have room for every write that
  follows its \<^verbatim>\<open>ensure_slots\<close>.

  The points of a polygon are kept as the memory of the array: \<open>point_array_items\<close> is
  the sequence of the doubles of \<^verbatim>\<open>point_array.items\<close>, two for each point, \<open>None\<close> for a
  double that was never written, and \<open>point_array_size\<close> is \<^verbatim>\<open>point_array.size\<close>, a
  \<^verbatim>\<open>uint64_t\<close> that wraps around.
\<close>

datatype RepetitionType = None' | Rectangular | Regular

datatype EndType = Flush | Round | HalfWidth | Extended

datatype reference_union = Null | Cell_pointer nat | Name_string "byte list"

record Polygon =
  layer :: "16 word"
  datatype' :: "16 word"
  point_array_items :: "real option list"
  point_array_size :: nat

record FlexPathElement =
  layer :: "16 word"
  datatype' :: "16 word"
  end_type :: EndType
  end_extensions :: Vec2

record FlexPath =
  num_elements :: nat
  elements :: "FlexPathElement list"
  gdsii_path :: bool
  scale_width :: bool
  spine_size :: nat

record Repetition =
  type :: RepetitionType
  columns :: "64 word"
  rows :: "64 word"

record Reference =
  type :: ReferenceType
  union' :: reference_union
  magnification :: real
  rotation :: real
  x_reflection :: bool
  repetition :: Repetition

record Label =
  text' :: "byte list option"
  owner :: "64 word"
  layer :: "16 word"
  texttype :: "16 word"
  anchor :: "16 word"
  magnification :: real
  rotation :: real
  x_reflection :: bool

record Cell =
  name :: "byte list option"
  owner :: "64 word"
  polygon_array :: "nat list"
  flexpath_array :: "nat list"
  reference_array :: "nat list"
  label_array :: "nat list"

record Library =
  name :: "byte list option"
  unit :: real
  precision :: real
  cell_array :: "nat list"

definition Library0 :: Library where
  "Library0 = \<lparr>Library.name = None, unit = 0, precision = 0, cell_array = []\<rparr>"

definition Cell0 :: Cell where
  "Cell0 = \<lparr>Cell.name = None, Cell.owner = 0, polygon_array = [], flexpath_array = [],
             reference_array = [], label_array = []\<rparr>"

definition Polygon0 :: Polygon where
  "Polygon0 = \<lparr>Polygon.layer = 0, Polygon.datatype' = 0, point_array_items = [],
                point_array_size = 0\<rparr>"

definition FlexPathElement0 :: FlexPathElement where
  "FlexPathElement0 = \<lparr>FlexPathElement.layer = 0, FlexPathElement.datatype' = 0,
                        end_type = Flush, end_extensions = (0, 0)\<rparr>"

definition FlexPath0 :: FlexPath where
  "FlexPath0 = \<lparr>num_elements = 0, elements = [], gdsii_path = False, scale_width = False,
                 spine_size = 0\<rparr>"

definition Reference0 :: Reference where
  "Reference0 = \<lparr>Reference.type = Cell, union' = Null, Reference.magnification = 0,
                  Reference.rotation = 0, Reference.x_reflection = False,
                  repetition = \<lparr>Repetition.type = None', columns = 0, rows = 0\<rparr>\<rparr>"

definition Label0 :: Label where
  "Label0 = \<lparr>text' = None, Label.owner = 0, Label.layer = 0, texttype = 0, anchor = 0,
              Label.magnification = 0, Label.rotation = 0, Label.x_reflection = False\<rparr>"

text \<open>What \<^verbatim>\<open>read_gds\<close> sends to standard error.\<close>

datatype gds_message =
    Unable_to_open_input
  | Absolute_not_supported
  | Record_not_supported byte
  | Unknown_record byte

text \<open>
  The memory and the local variables of \<^verbatim>\<open>read_gds\<close>. \<open>freed\<close> lists the strings handed to
  \<^verbatim>\<open>free_allocation\<close>, in order.
\<close>

record gds_state =
  library :: Library
  cells :: "Cell list"
  polygons :: "Polygon list"
  flexpaths :: "FlexPath list"
  references :: "Reference list"
  labels :: "Label list"
  freed :: "byte list list"
  cell :: "nat option"
  polygon :: "nat option"
  path :: "nat option"
  reference :: "nat option"
  label :: "nat option"
  factor :: real
  key :: "16 word"
  stderr :: "gds_message list"

definition gds_init :: gds_state where
  "gds_init =
     \<lparr>library = Library0, cells = [], polygons = [], flexpaths = [], references = [],
      labels = [], freed = [], cell = None, polygon = None, path = None, reference = None,
      label = None, factor = 1, key = 0, stderr = []\<rparr>"

text \<open>
  The string of an ASCII record: \<^verbatim>\<open>if (str[data_length - 1] == 0) data_length--\<close>, then a
  copy of \<^verbatim>\<open>data_length\<close> bytes (the zero byte that the program puts after the copy is
  left out: a string is read up to its first zero byte or its end). \<^verbatim>\<open>data_length\<close> is a
  \<^verbatim>\<open>uint32_t\<close>: for an empty record the test reads \<^verbatim>\<open>str[4294967295]\<close>, far outside the
  buffer.
\<close>

definition gds_string :: "byte list \<Rightarrow> fault + byte list" where
  "gds_string str =
     (if str = [] then Inl Out_of_bounds
      else if last str = 0 then Inr (butlast str) else Inr str)"

text \<open>Assignments through the pointers of the open elements.\<close>

definition in_cell :: "gds_state \<Rightarrow> (Cell \<Rightarrow> Cell) \<Rightarrow> gds_state" where
  "in_cell s f =
     (case cell s of
        None \<Rightarrow> s
      | Some c \<Rightarrow> s\<lparr>cells := (cells s)[c := f (cells s ! c)]\<rparr>)"

definition set_polygon :: "nat \<Rightarrow> (Polygon \<Rightarrow> Polygon) \<Rightarrow> gds_state \<Rightarrow> gds_state" where
  "set_polygon p f s = s\<lparr>polygons := (polygons s)[p := f (polygons s ! p)]\<rparr>"

definition set_path :: "nat \<Rightarrow> (FlexPath \<Rightarrow> FlexPath) \<Rightarrow> gds_state \<Rightarrow> gds_state" where
  "set_path p f s = s\<lparr>flexpaths := (flexpaths s)[p := f (flexpaths s ! p)]\<rparr>"

definition set_element0 ::
  "nat \<Rightarrow> (FlexPathElement \<Rightarrow> FlexPathElement) \<Rightarrow> gds_state \<Rightarrow> gds_state" where
  "set_element0 p f s =
     set_path p (\<lambda>fp. fp\<lparr>elements := (elements fp)[0 := f (elements fp ! 0)]\<rparr>) s"

definition set_reference :: "nat \<Rightarrow> (Reference \<Rightarrow> Reference) \<Rightarrow> gds_state \<Rightarrow> gds_state" where
  "set_reference r f s = s\<lparr>references := (references s)[r := f (references s ! r)]\<rparr>"

definition set_label :: "nat \<Rightarrow> (Label \<Rightarrow> Label) \<Rightarrow> gds_state \<Rightarrow> gds_state" where
  "set_label l f s = s\<lparr>labels := (labels s)[l := f (labels s ! l)]\<rparr>"

text \<open>
  The XY record of a polygon (lines 618 to 623). The destination is
  \<^verbatim>\<open>(double*)polygon->point_array.items + polygon->point_array.size\<close>: the cast binds
  first, so the copy starts \<^verbatim>\<open>size\<close> doubles, not \<^verbatim>\<open>size\<close> points, after the start of the
  array. \<open>write_doubles mem k vs\<close> is the memory \<open>mem\<close> after \<open>vs\<close> was copied to the
  doubles from index \<open>k\<close> on.
\<close>

definition write_doubles :: "real option list \<Rightarrow> nat \<Rightarrow> real list \<Rightarrow> real option list" where
  "write_doubles mem k vs =
     (let mem' = mem @ replicate (k + length vs - length mem) None
      in take k mem' @ map Some vs @ drop (k + length vs) mem')"

definition polygon_xy :: "real \<Rightarrow> 32 word list \<Rightarrow> Polygon \<Rightarrow> Polygon" where
  "polygon_xy fac xy pol =
     pol\<lparr>point_array_items :=
           write_doubles (point_array_items pol) (point_array_size pol)
             (map (\<lambda>v. fac * real_of_int (sint v)) xy),
         point_array_size := (point_array_size pol + length xy div 2) mod 2 ^ 64\<rparr>"

text \<open>
  The ENDLIB record (lines 535 to 558): a map from the names of the cells of the library
  to the cells, then for every reference of every cell of the library a lookup of
  \<^verbatim>\<open>reference->name\<close>, whatever the type of the reference. The lookup reads the union as a
  string: a null pointer or a pointer to a cell there is a fault. The last assignments to
  the locals \<^verbatim>\<open>cell\<close> and \<^verbatim>\<open>reference\<close> are left out: the function returns at once.
\<close>

definition endlib_map_set :: "Cell list \<Rightarrow> nat \<Rightarrow> nat Map \<Rightarrow> fault + nat Map" where
  "endlib_map_set cs c m =
     (if c < length cs
      then (case Cell.name (cs ! c) of
              None \<Rightarrow> Inl Null_pointer
            | Some n \<Rightarrow> Inr (Map_set m n c))
      else Inl Dangling_pointer)"

definition resolve_reference :: "nat Map \<Rightarrow> nat \<Rightarrow> gds_state \<Rightarrow> fault + gds_state" where
  "resolve_reference m r s =
     (if r < length (references s)
      then (case union' (references s ! r) of
              Null \<Rightarrow> Inl Null_pointer
            | Cell_pointer c \<Rightarrow> Inl Not_a_string
            | Name_string n \<Rightarrow>
                (case Map_get m n of
                   None \<Rightarrow> Inr s
                 | Some cp \<Rightarrow>
                     Inr (s\<lparr>references := (references s)[r := (references s ! r)
                                \<lparr>Reference.type := Cell, union' := Cell_pointer cp\<rparr>],
                            freed := freed s @ [n]\<rparr>)))
      else Inl Dangling_pointer)"

definition resolve_cell :: "nat Map \<Rightarrow> nat \<Rightarrow> gds_state \<Rightarrow> fault + gds_state" where
  "resolve_cell m c s =
     (if c < length (cells s)
      then fold_err (resolve_reference m) (reference_array (cells s ! c)) s
      else Inl Dangling_pointer)"

definition endlib :: "gds_state \<Rightarrow> fault + gds_state" where
  "endlib s =
     (case fold_err (endlib_map_set (cells s)) (cell_array (library s)) [] of
        Inl e \<Rightarrow> Inl e
      | Inr m \<Rightarrow> fold_err (resolve_cell m) (cell_array (library s)) s)"

text \<open>
  One turn of the loop: the \<^verbatim>\<open>switch\<close> on the record type. \<open>g2d\<close> is
  \<^verbatim>\<open>gdsii_real_to_double\<close>, which is not part of the sources; \<open>u\<close> is the argument \<^verbatim>\<open>unit\<close>.

  Modelled from the spec: \<^verbatim>\<open>Curve::append\<close> and \<^verbatim>\<open>FlexPath::segment\<close> (\<^verbatim>\<open>curve.cpp\<close> and
  \<^verbatim>\<open>flexpath.cpp\<close> are not part of the sources) in the XY record of a path. Section 6: the
  path segmenter appends spine points to a path. \<open>spine_size\<close> is the number of points of
  the spine, which is all the model keeps of it: the first XY record of a path appends
  its first point and hands the others to the segmenter, the later ones hand over all
  their points. The first one reads \<^verbatim>\<open>data_length - 2\<close> words in a loop that counts down a
  \<^verbatim>\<open>uint32_t\<close>: with fewer than two words it runs off the buffer.
\<close>

fun gds_record :: "(64 word \<Rightarrow> real) \<Rightarrow> real \<Rightarrow> gds_state \<Rightarrow> GdsiiRecord \<Rightarrow> fault + gds_state"
  where
  "gds_record g2d u s HEADER = Inr s"
| "gds_record g2d u s BGNLIB = Inr s"
| "gds_record g2d u s ENDSTR = Inr s"
| "gds_record g2d u s (LIBNAME str) =
     (case gds_string str of
        Inl e \<Rightarrow> Inl e
      | Inr n \<Rightarrow> Inr (s\<lparr>library := (library s)\<lparr>Library.name := Some n\<rparr>\<rparr>))"
| "gds_record g2d u s (UNITS w0 w1) =
     (let db_in_user = g2d w0;
          db_in_meters = g2d w1;
          s = (if 0 < u
               then s\<lparr>factor := db_in_meters / u, library := (library s)\<lparr>unit := u\<rparr>\<rparr>
               else s\<lparr>factor := db_in_user,
                      library := (library s)\<lparr>unit := db_in_meters / db_in_user\<rparr>\<rparr>)
      in Inr (s\<lparr>library := (library s)\<lparr>precision := db_in_meters\<rparr>\<rparr>))"
| "gds_record g2d u s ENDLIB = endlib s"
| "gds_record g2d u s BGNSTR =
     Inr (s\<lparr>cells := cells s @ [Cell0], cell := Some (length (cells s))\<rparr>)"
| "gds_record g2d u s (STRNAME str) =
     (case cell s of
        None \<Rightarrow> Inr s
      | Some c \<Rightarrow>
          (case gds_string str of
             Inl e \<Rightarrow> Inl e
           | Inr n \<Rightarrow>
               Inr (s\<lparr>cells := (cells s)[c := (cells s ! c)\<lparr>Cell.name := Some n\<rparr>],
                      library := (library s)\<lparr>cell_array := cell_array (library s) @ [c]\<rparr>\<rparr>)))"
| "gds_record g2d u s BOUNDARY =
     Inr ((in_cell s (\<lambda>c. c\<lparr>polygon_array := polygon_array c @ [length (polygons s)]\<rparr>))
           \<lparr>polygons := polygons s @ [Polygon0], polygon := Some (length (polygons s))\<rparr>)"
| "gds_record g2d u s BOX =
     Inr ((in_cell s (\<lambda>c. c\<lparr>polygon_array := polygon_array c @ [length (polygons s)]\<rparr>))
           \<lparr>polygons := polygons s @ [Polygon0], polygon := Some (length (polygons s))\<rparr>)"
| "gds_record g2d u s PATH =
     Inr ((in_cell s (\<lambda>c. c\<lparr>flexpath_array := flexpath_array c @ [length (flexpaths s)]\<rparr>))
           \<lparr>flexpaths := flexpaths s
              @ [FlexPath0\<lparr>num_elements := 1, elements := [FlexPathElement0],
                           gdsii_path := True\<rparr>],
            path := Some (length (flexpaths s))\<rparr>)"
| "gds_record g2d u s SREF =
     Inr ((in_cell s (\<lambda>c. c\<lparr>reference_array := reference_array c @ [length (references s)]\<rparr>))
           \<lparr>references := references s @ [Reference0\<lparr>Reference.magnification := 1\<rparr>],
            reference := Some (length (references s))\<rparr>)"
| "gds_record g2d u s AREF =
     Inr ((in_cell s (\<lambda>c. c\<lparr>reference_array := reference_array c @ [length (references s)]\<rparr>))
           \<lparr>references := references s @ [Reference0\<lparr>Reference.magnification := 1\<rparr>],
            reference := Some (length (references s))\<rparr>)"
| "gds_record g2d u s TEXT =
     Inr ((in_cell s (\<lambda>c. c\<lparr>label_array := label_array c @ [length (labels s)]\<rparr>))
           \<lparr>labels := labels s @ [Label0], label := Some (length (labels s))\<rparr>)"
| "gds_record g2d u s (LAYER v) =
     Inr (case polygon s of
            Some p \<Rightarrow> set_polygon p (\<lambda>x. x\<lparr>Polygon.layer := v\<rparr>) s
          | None \<Rightarrow>
              (case path s of
                 Some p \<Rightarrow> set_element0 p (\<lambda>x. x\<lparr>FlexPathElement.layer := v\<rparr>) s
               | None \<Rightarrow>
                   (case label s of
                      Some l \<Rightarrow> set_label l (\<lambda>x. x\<lparr>Label.layer := v\<rparr>) s
                    | None \<Rightarrow> s)))"
| "gds_record g2d u s (DATATYPE v) =
     Inr (case polygon s of
            Some p \<Rightarrow> set_polygon p (\<lambda>x. x\<lparr>Polygon.datatype' := v\<rparr>) s
          | None \<Rightarrow>
              (case path s of
                 Some p \<Rightarrow> set_element0 p (\<lambda>x. x\<lparr>FlexPathElement.datatype' := v\<rparr>) s
               | None \<Rightarrow> s))"
| "gds_record g2d u s (BOXTYPE v) =
     Inr (case polygon s of
            Some p \<Rightarrow> set_polygon p (\<lambda>x. x\<lparr>Polygon.datatype' := v\<rparr>) s
          | None \<Rightarrow>
              (case path s of
                 Some p \<Rightarrow> set_element0 p (\<lambda>x. x\<lparr>FlexPathElement.datatype' := v\<rparr>) s
               | None \<Rightarrow> s))"
| "gds_record g2d u s (WIDTH v) =
     Inr (case path s of
            None \<Rightarrow> s
          | Some p \<Rightarrow> set_path p (\<lambda>x. x\<lparr>scale_width := \<not> sint v < 0\<rparr>) s)"
| "gds_record g2d u s (XY xy) =
     (case polygon s of
        Some p \<Rightarrow> Inr (set_polygon p (polygon_xy (factor s) xy) s)
      | None \<Rightarrow>
          (case path s of
             Some p \<Rightarrow>
               (if spine_size (flexpaths s ! p) = 0 \<and> length xy < 2 then Inl Out_of_bounds
                else Inr (set_path p
                       (\<lambda>x. x\<lparr>spine_size := spine_size x + length xy div 2\<rparr>) s))
           | None \<Rightarrow>
               (case reference s of
                  Some r \<Rightarrow>
                    Inr (set_reference r
                      (\<lambda>x. if Repetition.type (Reference.repetition x) \<noteq> None'
                               \<and> \<not> (Reference.rotation x = 0 \<and> \<not> Reference.x_reflection x)
                            then x\<lparr>Reference.repetition :=
                                    (Reference.repetition x)\<lparr>Repetition.type := Regular\<rparr>\<rparr>
                            else x) s)
                | None \<Rightarrow> Inr s)))"
| "gds_record g2d u s ENDEL =
     (let s = (case polygon s of
                 None \<Rightarrow> s
               | Some p \<Rightarrow>
                   (set_polygon p
                      (\<lambda>x. x\<lparr>point_array_size := (point_array_size x + (2 ^ 64 - 1)) mod 2 ^ 64\<rparr>)
                      s)\<lparr>polygon := None\<rparr>)
      in Inr (s\<lparr>path := None, reference := None, label := None\<rparr>))"
| "gds_record g2d u s (SNAME str) =
     (case reference s of
        None \<Rightarrow> Inr s
      | Some r \<Rightarrow>
          (case gds_string str of
             Inl e \<Rightarrow> Inl e
           | Inr n \<Rightarrow>
               Inr (set_reference r
                      (\<lambda>x. x\<lparr>union' := Name_string n, Reference.type := Name\<rparr>) s)))"
| "gds_record g2d u s (COLROW v0 v1) =
     Inr (case reference s of
            None \<Rightarrow> s
          | Some r \<Rightarrow>
              set_reference r
                (\<lambda>x. x\<lparr>Reference.repetition :=
                        \<lparr>Repetition.type = Rectangular, columns = scast v0, rows = scast v1\<rparr>\<rparr>) s)"
| "gds_record g2d u s (TEXTTYPE v) =
     Inr (case label s of
            None \<Rightarrow> s
          | Some l \<Rightarrow> set_label l (\<lambda>x. x\<lparr>texttype := v\<rparr>) s)"
| "gds_record g2d u s (PRESENTATION v) =
     Inr (case label s of
            None \<Rightarrow> s
          | Some l \<Rightarrow> set_label l (\<lambda>x. x\<lparr>anchor := v AND 0x000F\<rparr>) s)"
| "gds_record g2d u s (STRING str) =
     (case label s of
        None \<Rightarrow> Inr s
      | Some l \<Rightarrow>
          (case gds_string str of
             Inl e \<Rightarrow> Inl e
           | Inr n \<Rightarrow> Inr (set_label l (\<lambda>x. x\<lparr>text' := Some n\<rparr>) s)))"
| "gds_record g2d u s (STRANS v) =
     (let s = (case reference s of
                 Some r \<Rightarrow>
                   set_reference r (\<lambda>x. x\<lparr>Reference.x_reflection := (v AND 0x8000 \<noteq> 0)\<rparr>) s
               | None \<Rightarrow>
                   (case label s of
                      Some l \<Rightarrow>
                        set_label l (\<lambda>x. x\<lparr>Label.x_reflection := (v AND 0x8000 \<noteq> 0)\<rparr>) s
                    | None \<Rightarrow> s))
      in Inr (if v AND 0x0006 \<noteq> 0 then s\<lparr>stderr := stderr s @ [Absolute_not_supported]\<rparr>
              else s))"
| "gds_record g2d u s (MAG w) =
     Inr (case reference s of
            Some r \<Rightarrow> set_reference r (\<lambda>x. x\<lparr>Reference.magnification := g2d w\<rparr>) s
          | None \<Rightarrow>
              (case label s of
                 Some l \<Rightarrow> set_label l (\<lambda>x. x\<lparr>Label.magnification := g2d w\<rparr>) s
               | None \<Rightarrow> s))"
| "gds_record g2d u s (ANGLE w) =
     Inr (case reference s of
            Some r \<Rightarrow> set_reference r (\<lambda>x. x\<lparr>Reference.rotation := pi / 180 * g2d w\<rparr>) s
          | None \<Rightarrow>
              (case label s of
                 Some l \<Rightarrow> set_label l (\<lambda>x. x\<lparr>Label.rotation := pi / 180 * g2d w\<rparr>) s
               | None \<Rightarrow> s))"
| "gds_record g2d u s (PATHTYPE v) =
     Inr (case path s of
            None \<Rightarrow> s
          | Some p \<Rightarrow>
              set_element0 p
                (\<lambda>x. x\<lparr>end_type := (if v = 0 then Flush else if v = 1 then Round
                                      else if v = 2 then HalfWidth else Extended)\<rparr>) s)"
| "gds_record g2d u s (PROPATTR v) = Inr (s\<lparr>key := v\<rparr>)"
| "gds_record g2d u s (PROPVALUE str) =
     (if str = [] then Inl Out_of_bounds else Inr s)"
| "gds_record g2d u s (BGNEXTN v) =
     Inr (case path s of
            None \<Rightarrow> s
          | Some p \<Rightarrow>
              set_element0 p
                (\<lambda>x. x\<lparr>end_extensions :=
                        (factor s * real_of_int (sint v), snd (end_extensions x))\<rparr>) s)"
| "gds_record g2d u s (ENDEXTN v) =
     Inr (case path s of
            None \<Rightarrow> s
          | Some p \<Rightarrow>
              set_element0 p
                (\<lambda>x. x\<lparr>end_extensions :=
                        (fst (end_extensions x), factor s * real_of_int (sint v))\<rparr>) s)"
| "gds_record g2d u s (Other b) =
     Inr (s\<lparr>stderr := stderr s
            @ [if unat b < 60 then Record_not_supported b else Unknown_record b]\<rparr>)"

text \<open>
  The loop of \<^verbatim>\<open>read_gds\<close>: it returns the library from the ENDLIB branch, and
  \<^verbatim>\<open>Library{0}\<close> when the records run out. The result is the library returned and the
  state the function ends in.
\<close>

fun read_gds_loop ::
  "(64 word \<Rightarrow> real) \<Rightarrow> real \<Rightarrow> gds_state \<Rightarrow> GdsiiRecord list \<Rightarrow> fault + Library \<times> gds_state"
  where
  "read_gds_loop g2d u s [] = Inr (Library0, s)"
| "read_gds_loop g2d u s (r # rs) =
     (case gds_record g2d u s r of
        Inl e \<Rightarrow> Inl e
      | Inr s' \<Rightarrow>
          if r = ENDLIB then Inr (library s', s') else read_gds_loop g2d u s' rs)"

text \<open>
  \<^verbatim>\<open>read_gds\<close>. \<open>opened\<close> is what \<^verbatim>\<open>fopen(filename, "rb")\<close> gave: \<open>None\<close> for the null
  pointer, or the records of the file.
\<close>

definition read_gds ::
  "(64 word \<Rightarrow> real) \<Rightarrow> GdsiiRecord list option \<Rightarrow> real \<Rightarrow> real
     \<Rightarrow> fault + Library \<times> gds_state" where
  "read_gds g2d opened u tolerance =
     (case opened of
        None \<Rightarrow> Inr (library gds_init, gds_init\<lparr>stderr := [Unable_to_open_input]\<rparr>)
      | Some records \<Rightarrow> read_gds_loop g2d u gds_init records)"

text \<open>
  To state properties of a part of the stream: the records of a list in turn, from a
  state.
\<close>

definition gds_records ::
  "(64 word \<Rightarrow> real) \<Rightarrow> real \<Rightarrow> GdsiiRecord list \<Rightarrow> gds_state \<Rightarrow> fault + gds_state" where
  "gds_records g2d u rs s = fold_err (\<lambda>r s. gds_record g2d u s r) rs s"



definition gds_safe :: "GdsiiRecord \<Rightarrow> bool" where
  "gds_safe r =
     (case r of
        LIBNAME str \<Rightarrow> str \<noteq> []
      | STRNAME str \<Rightarrow> str \<noteq> []
      | SNAME str \<Rightarrow> str \<noteq> []
      | STRING str \<Rightarrow> str \<noteq> []
      | PROPVALUE str \<Rightarrow> str \<noteq> []
      | XY xy \<Rightarrow> 2 \<le> length xy
      | ENDLIB \<Rightarrow> False
      | _ \<Rightarrow> True)"

subsection \<open>Properties of the GDSII reader\<close>


lemma gds_records_Nil: "gds_records g2d u [] s = Inr s"
  by (simp add: gds_records_def)

lemma gds_records_Cons:
  "gds_records g2d u (r # rs) s =
     (case gds_record g2d u s r of Inl e \<Rightarrow> Inl e | Inr s' \<Rightarrow> gds_records g2d u rs s')"
  by (simp add: gds_records_def split: sum.splits)

lemma read_gds_loop_records:
  "ENDLIB \<notin> set rs \<Longrightarrow>
   read_gds_loop g2d u s rs =
     (case gds_records g2d u rs s of Inl e \<Rightarrow> Inl e | Inr s' \<Rightarrow> Inr (Library0, s'))"
  by (induction rs arbitrary: s) (auto simp add: gds_records_Nil gds_records_Cons split: sum.splits)


lemma gds_string_safe: "str \<noteq> [] \<Longrightarrow> \<exists>n. gds_string str = Inr n"
  by (simp add: gds_string_def)

lemma gds_record_safe: "gds_safe r \<Longrightarrow> \<exists>s'. gds_record g2d u s r = Inr s'"
  by (cases r)
    (auto simp add: gds_safe_def gds_string_def Let_def split: option.splits)

lemma gds_records_safe:
  "\<forall>r \<in> set rs. gds_safe r \<Longrightarrow> \<exists>s'. gds_records g2d u rs s = Inr s'"
proof (induction rs arbitrary: s)
  case Nil
  then show ?case by (simp add: gds_records_Nil)
next
  case (Cons r rs)
  then obtain s1 where "gds_record g2d u s r = Inr s1"
    using gds_record_safe [of r g2d u s] by auto
  then show ?case using Cons by (simp add: gds_records_Cons)
qed

subsection \<open>End of file without ENDLIB\<close>

text \<open>
  Claim C9. When no record of the stream is ENDLIB, a run of \<^verbatim>\<open>read_gds\<close> that reaches the
  end of the stream returns the zero-initialised library, whatever cells and elements
  the state holds by then; and the run does reach the end when no record of the stream
  has an empty string or an XY record with fewer than two words, the records on which the
  program reads outside its buffer. A library that is not the zero-initialised one comes
  from a stream with an ENDLIB record.
\<close>

theorem read_gds_without_ENDLIB:
  assumes "ENDLIB \<notin> set records"
  shows "(\<forall>lib s. read_gds g2d (Some records) u tolerance = Inr (lib, s) \<longrightarrow> lib = Library0)
       \<and> ((\<forall>r \<in> set records. gds_safe r) \<longrightarrow>
            (\<exists>s. read_gds g2d (Some records) u tolerance = Inr (Library0, s)))"
proof (intro conjI allI impI)
  fix lib s
  assume "read_gds g2d (Some records) u tolerance = Inr (lib, s)"
  then show "lib = Library0"
    using assms by (auto simp add: read_gds_def read_gds_loop_records split: sum.splits)
next
  assume "\<forall>r \<in> set records. gds_safe r"
  then obtain s where "gds_records g2d u records gds_init = Inr s"
    using gds_records_safe by blast
  then show "\<exists>s. read_gds g2d (Some records) u tolerance = Inr (Library0, s)"
    using assms by (simp add: read_gds_def read_gds_loop_records)
qed

definition example_gds_records :: "GdsiiRecord list" where
  "example_gds_records =
     [HEADER, BGNLIB, LIBNAME [0x4C, 0], UNITS 1 2, BGNSTR, STRNAME [0x41, 0], BOUNDARY,
      LAYER 1, DATATYPE 0, XY [0, 0, 1, 0, 1, 2, 0, 0], ENDEL, ENDSTR]"

theorem read_gds_without_ENDLIB_witness:
  "ENDLIB \<notin> set example_gds_records
   \<and> (\<exists>s. read_gds (\<lambda>w. 1) (Some example_gds_records) 0 0 = Inr (Library0, s)
          \<and> length (cells s) = 1 \<and> Library.name (library s) = Some [0x4C])"
proof -
  have a: "ENDLIB \<notin> set example_gds_records"
    by (simp add: example_gds_records_def)
  have b: "\<forall>r \<in> set example_gds_records. gds_safe r"
    by (simp add: example_gds_records_def gds_safe_def)
  obtain s where s: "read_gds (\<lambda>w. 1) (Some example_gds_records) 0 0 = Inr (Library0, s)"
    using read_gds_without_ENDLIB [OF a, of "\<lambda>w. 1" 0 0] b by blast
  have "read_gds (\<lambda>w. 1) (Some example_gds_records) 0 0 =
          Inr (Library0, snd (projr (read_gds (\<lambda>w. 1) (Some example_gds_records) 0 0)))"
    using s by simp
  moreover have "length (cells (snd (projr (read_gds (\<lambda>w. 1) (Some example_gds_records) 0 0)))) = 1
      \<and> Library.name (library (snd (projr (read_gds (\<lambda>w. 1) (Some example_gds_records) 0 0))))
          = Some [0x4C]"
    by (simp add: read_gds_def example_gds_records_def gds_init_def gds_string_def Let_def
        in_cell_def set_polygon_def polygon_xy_def write_doubles_def Library0_def Cell0_def
        Polygon0_def)
  ultimately show ?thesis using a by blast
qed



























subsection \<open>The closing vertex of a polygon\<close>





subsection \<open>References resolved at ENDLIB\<close>




section \<open>The OASIS reader\<close>

text \<open>
  \<^verbatim>\<open>read_oas\<close> (lines 810 to 1876). The input is the file that \<^verbatim>\<open>fopen(filename, "rb")\<close>
  gives: its bytes and the read position. \<open>fread n\<close> is \<^verbatim>\<open>fread(buffer, 1, n, file)\<close>, the
  bytes read (fewer than \<open>n\<close> at the end of the file) and the file after it;
  \<open>fseek_set\<close> is \<^verbatim>\<open>fseek(file, offset, SEEK_SET)\<close> with a \<^verbatim>\<open>uint64_t\<close> argument, which
  becomes a \<^verbatim>\<open>long\<close>: a negative one makes the call fail and the position stay;
  \<open>fseek_end\<close> is \<^verbatim>\<open>fseek(file, 0, SEEK_END)\<close>. \<^verbatim>\<open>fclose\<close> must be given a stream: with a
  null pointer the behaviour is undefined.
\<close>

record FILE =
  contents :: "byte list"
  position :: nat

definition fread :: "nat \<Rightarrow> FILE \<Rightarrow> byte list \<times> FILE" where
  "fread n f =
     (let bytes = take n (drop (position f) (contents f))
      in (bytes, f\<lparr>position := position f + length bytes\<rparr>))"

definition fseek_set :: "64 word \<Rightarrow> FILE \<Rightarrow> FILE" where
  "fseek_set offset f = (if sint offset < 0 then f else f\<lparr>position := unat offset\<rparr>)"

definition fseek_end :: "FILE \<Rightarrow> FILE" where
  "fseek_end f = f\<lparr>position := length (contents f)\<rparr>"

definition fclose :: "FILE option \<Rightarrow> fault + unit" where
  "fclose f = (case f of None \<Rightarrow> Inl Fclose_null | Some x \<Rightarrow> Inr ())"

text \<open>
  Modelled from the spec: \<^verbatim>\<open>oasis_read\<close> (\<^verbatim>\<open>oasis.cpp\<close> is not part of the sources).
  Sections 4.2 and 4.6: reads go through the file, or through the in-memory inflated
  buffer after the inflation of a CBLOCK, until the buffer is exhausted. The cursor of
  an input stream is null while the file is read, and \<^verbatim>\<open>data + k\<close> while the buffer is.
  \<open>unread\<close> is what is left of the source that is being read.
\<close>

definition oasis_read :: "nat \<Rightarrow> FILE OasisStream \<Rightarrow> byte list \<times> FILE OasisStream" where
  "oasis_read n i =
     (case cursor i of
        None \<Rightarrow> (let (bytes, f) = fread n (file' i) in (bytes, i\<lparr>file' := f\<rparr>))
      | Some k \<Rightarrow>
          (take n (drop k (data i)),
           i\<lparr>cursor := (if k + n < length (data i) then Some (k + n) else None)\<rparr>))"

definition unread :: "FILE OasisStream \<Rightarrow> byte list" where
  "unread i =
     (case cursor i of
        None \<Rightarrow> drop (position (file' i)) (contents (file' i))
      | Some k \<Rightarrow> drop k (data i))"

text \<open>
  Modelled from the spec: \<^verbatim>\<open>oasis_read_unsigned_integer\<close> and \<^verbatim>\<open>oasis_read_string\<close>
  (\<^verbatim>\<open>oasis.cpp\<close> is not part of the sources). Section 4.1: an unsigned integer is a 7-bit
  little-endian varint, continuation bit in the most significant bit of each byte;
  section 4.6: a string is its length, an unsigned integer, and then that many bytes.
  \<open>unsigned_integer_of\<close> gives the value, a \<^verbatim>\<open>uint64_t\<close>, and the number of bytes taken; an
  integer is taken to lie within one source, and one that the end of the source cuts has
  the value of the bytes that are there. The second argument of \<^verbatim>\<open>oasis_read_string\<close> asks
  for a terminating zero byte; the result holds the bytes, the length read, and the
  stream.
\<close>

fun unsigned_integer_of :: "byte list \<Rightarrow> 64 word \<times> nat" where
  "unsigned_integer_of [] = (0, 0)"
| "unsigned_integer_of (b # bs) =
     (if b AND 0x80 = 0 then (ucast b, 1)
      else (let (v, n) = unsigned_integer_of bs
            in (ucast (b AND 0x7F) OR push_bit 7 v, Suc n)))"

definition oasis_read_unsigned_integer :: "FILE OasisStream \<Rightarrow> 64 word \<times> FILE OasisStream"
  where
  "oasis_read_unsigned_integer i =
     (let (v, n) = unsigned_integer_of (unread i) in (v, snd (oasis_read n i)))"

definition oasis_read_string ::
  "FILE OasisStream \<Rightarrow> bool \<Rightarrow> byte list \<times> 64 word \<times> FILE OasisStream" where
  "oasis_read_string i append_terminating_null =
     (let (n, i) = oasis_read_unsigned_integer i;
          (bytes, i) = oasis_read (unat n) i
      in (if append_terminating_null then bytes @ [0] else bytes, n, i))"

text \<open>What \<^verbatim>\<open>read_oas\<close> sends to standard error.\<close>

datatype oas_message =
    Unable_to_open_OASIS_input
  | Invalid_OASIS_header
  | Unsupported_OASIS_version
  | Unexpected_START
  | CBLOCK_method_not_supported
  | Unable_to_read_full_CBLOCK
  | Unable_to_initialize_inflate
  | Unable_to_decompress_CBLOCK
  | Unknown_record_type byte
  | Other_message string

text \<open>
  Where \<^verbatim>\<open>next_property\<close> points: to the property list of the library, of an entry of one
  of the four name tables, of a cell or an element, or to the \<^verbatim>\<open>next\<close> field of a property.
\<close>

datatype property_slot =
    Library_properties
  | Cell_name_properties nat
  | Label_text_properties nat
  | Property_name_properties nat
  | Property_value_properties nat
  | Cell_properties nat
  | Reference_properties nat
  | Label_properties nat
  | Polygon_properties nat
  | Path_properties nat
  | Property_next nat

text \<open>
  The local variables of \<^verbatim>\<open>read_oas\<close> and the cells it allocates (lines 811 to 887). The
  objects are those of the GDSII reader: a pointer is an index, \<open>None\<close> the null pointer.
  The name tables, the lists of unfinished properties and the elements of the cells
  belong to the handlers that are not translated (see below) and are left out.
\<close>

record oas_state =
  in' :: "FILE OasisStream"
  library :: Library
  cells :: "Cell list"
  factor :: real
  len :: "64 word"
  modal_absolute_pos :: bool
  modal_layer :: "64 word"
  modal_datatype :: "64 word"
  modal_textlayer :: "64 word"
  modal_texttype :: "64 word"
  modal_placement_pos :: Vec2
  modal_text_pos :: Vec2
  modal_geom_pos :: Vec2
  modal_geom_dim :: Vec2
  modal_repetition :: Repetition
  modal_text_string :: "nat option"
  modal_placement_cell :: "nat option"
  modal_polygon_points :: "Vec2 list"
  modal_path_points :: "Vec2 list"
  modal_path_halfwidth :: real
  modal_path_extensions :: Vec2
  modal_ctrapezoid_type :: byte
  modal_circle_radius :: real
  modal_property :: "nat option"
  modal_property_value_list :: "nat option"
  next_property :: property_slot
  modal_property_unfinished :: bool
  cell :: "nat option"
  stderr :: "oas_message list"

text \<open>
  The collaborators of the reader. \<open>record_byte\<close> gives the values of the enumerators of
  \<^verbatim>\<open>OasisRecord\<close> (\<^verbatim>\<open>oasis.h\<close>), \<open>oasis_read_real\<close> and \<open>zlib_inflate\<close> stand for
  \<^verbatim>\<open>oasis_read_real\<close> and for \<^verbatim>\<open>inflateInit2\<close> and \<^verbatim>\<open>inflate\<close>: the latter takes the compressed
  bytes and the size of the output buffer and gives the two verdicts and the contents of
  the buffer. Two parts of \<^verbatim>\<open>read_oas\<close> are not translated and are parameters as well, so
  that every statement below holds whatever they do: \<open>end_fixups\<close> is the part of the END
  handler that resolves the names (lines 905 to 980), and \<open>other_record\<close> is the handlers
  of the records of the name tables, of the elements and of the properties (lines 982 to
  1065 and 1088 to 1802).
\<close>

record oas_collaborators =
  record_byte :: "OasisRecord \<Rightarrow> byte"
  oasis_read_real :: "FILE OasisStream \<Rightarrow> real \<times> FILE OasisStream"
  zlib_inflate :: "byte list \<Rightarrow> nat \<Rightarrow> zresult"
  end_fixups :: "oas_state \<Rightarrow> oas_state"
  other_record :: "OasisRecord \<Rightarrow> oas_state \<Rightarrow> oas_state"

text \<open>
  The \<^verbatim>\<open>switch\<close> finds the enumerator that the byte read is the value of; \<open>None\<close> is the
  \<^verbatim>\<open>default\<close> case.
\<close>

definition oasis_records :: "OasisRecord list" where
  "oasis_records =
     [PAD, START, END, CELLNAME_IMPLICIT, CELLNAME, TEXTSTRING_IMPLICIT, TEXTSTRING,
      PROPNAME_IMPLICIT, PROPNAME, PROPSTRING_IMPLICIT, PROPSTRING, LAYERNAME_DATA,
      LAYERNAME_TEXT, CELL_REF_NUM, CELL, XYABSOLUTE, XYRELATIVE, PLACEMENT,
      PLACEMENT_TRANSFORM, OasisRecord.TEXT, RECTANGLE, POLYGON, OasisRecord.PATH,
      TRAPEZOID_AB, TRAPEZOID_A, TRAPEZOID_B, CTRAPEZOID, CIRCLE, PROPERTY, LAST_PROPERTY,
      XNAME_IMPLICIT, XNAME, XELEMENT, XGEOMETRY, CBLOCK]"

definition decode_record :: "oas_collaborators \<Rightarrow> byte \<Rightarrow> OasisRecord option" where
  "decode_record h b = find (\<lambda>r. record_byte h r = b) oasis_records"

text \<open>The END handler (lines 898 to 981).\<close>

definition end_record :: "oas_collaborators \<Rightarrow> oas_state \<Rightarrow> oas_state" where
  "end_record h s =
     (let s = s\<lparr>in' := (in' s)\<lparr>file' := fseek_end (file' (in' s))\<rparr>\<rparr>;
          s = s\<lparr>library := (library s)\<lparr>Library.name := Some [0x4C, 0x49, 0x42, 0]\<rparr>\<rparr>
      in end_fixups h s)"

text \<open>The handler of CELL and \<^verbatim>\<open>CELL_REF_NUM\<close> (lines 1066 to 1081).\<close>

definition cell_record :: "bool \<Rightarrow> oas_state \<Rightarrow> oas_state" where
  "cell_record ref_num s =
     (let c = length (cells s);
          s = s\<lparr>cells := cells s @ [Cell0], cell := Some c\<rparr>;
          s = s\<lparr>library := (library s)\<lparr>cell_array := cell_array (library s) @ [c]\<rparr>\<rparr>;
          s = s\<lparr>next_property := Cell_properties c\<rparr>;
          s = (if ref_num
               then (let (v, i) = oasis_read_unsigned_integer (in' s)
                     in s\<lparr>in' := i, cells := (cells s)[c := (cells s ! c)\<lparr>Cell.owner := v\<rparr>]\<rparr>)
               else (let (bytes, n, i) = oasis_read_string (in' s) True
                     in s\<lparr>in' := i, len := n,
                          cells := (cells s)[c := (cells s ! c)\<lparr>Cell.name := Some bytes\<rparr>]\<rparr>))
      in s\<lparr>modal_absolute_pos := True, modal_placement_pos := (0, 0),
           modal_geom_pos := (0, 0), modal_text_pos := (0, 0)\<rparr>)"

text \<open>
  The CBLOCK handler (lines 1803 to 1833). When the compression type is not 0, the
  second \<^verbatim>\<open>oasis_read_unsigned_integer\<close> reads the uncompressed size, the third the
  compressed size, and \<^verbatim>\<open>fseek(in.file, len, SEEK_SET)\<close> follows.
\<close>

definition cblock_record :: "oas_collaborators \<Rightarrow> oas_state \<Rightarrow> oas_state" where
  "cblock_record h s =
     (let (compression_type, i) = oasis_read_unsigned_integer (in' s)
      in if compression_type \<noteq> 0
         then
           let s = s\<lparr>stderr := stderr s @ [CBLOCK_method_not_supported]\<rparr>;
               (uncompressed_size, i) = oasis_read_unsigned_integer i;
               (n, i) = oasis_read_unsigned_integer i
           in s\<lparr>len := n, in' := i\<lparr>file' := fseek_set n (file' i)\<rparr>\<rparr>
         else
           let (data_size, i) = oasis_read_unsigned_integer i;
               (avail_in, i) = oasis_read_unsigned_integer i;
               (compressed, f) = fread (unat avail_in) (file' i);
               z = zlib_inflate h compressed (unat data_size)
           in s\<lparr>in' := \<lparr>file' = f, data = total_out z, cursor = Some 0\<rparr>,
                stderr := stderr s
                  @ (if length compressed \<noteq> unat avail_in then [Unable_to_read_full_CBLOCK]
                     else [])
                  @ (if init_ok z then [] else [Unable_to_initialize_inflate])
                  @ (if stream_end z then [] else [Unable_to_decompress_CBLOCK])\<rparr>)"

text \<open>
  One turn of the loop (lines 890 to 1837), after the byte of the record was read: the
  \<^verbatim>\<open>switch\<close>.
\<close>

definition oas_record :: "oas_collaborators \<Rightarrow> byte \<Rightarrow> oas_state \<Rightarrow> oas_state" where
  "oas_record h b s =
     (case decode_record h b of
        None \<Rightarrow> s\<lparr>stderr := stderr s @ [Unknown_record_type b]\<rparr>
      | Some r \<Rightarrow>
          (case r of
             PAD \<Rightarrow> s
           | START \<Rightarrow> s\<lparr>stderr := stderr s @ [Unexpected_START]\<rparr>
           | END \<Rightarrow> end_record h s
           | CELL_REF_NUM \<Rightarrow> cell_record True s
           | CELL \<Rightarrow> cell_record False s
           | XYABSOLUTE \<Rightarrow> s\<lparr>modal_absolute_pos := True\<rparr>
           | XYRELATIVE \<Rightarrow> s\<lparr>modal_absolute_pos := False\<rparr>
           | CBLOCK \<Rightarrow> cblock_record h s
           | _ \<Rightarrow> other_record h r s))"

text \<open>
  The loop: \<^verbatim>\<open>while (oasis_read(&record, 1, 1, in) > 0)\<close>. A turn need not move forward in
  the file, so the loop is given fuel: \<open>None\<close> says that it has not ended after that many
  turns.
\<close>

fun read_oas_loop :: "oas_collaborators \<Rightarrow> nat \<Rightarrow> oas_state \<Rightarrow> oas_state option" where
  "read_oas_loop h 0 s = None"
| "read_oas_loop h (Suc n) s =
     (case oasis_read 1 (in' s) of
        ([], i) \<Rightarrow> Some (s\<lparr>in' := i\<rparr>)
      | (b # bs, i) \<Rightarrow> read_oas_loop h n (oas_record h b (s\<lparr>in' := i\<rparr>)))"

text \<open>
  The state in which the loop starts on the file \<open>f\<close>, all but the stream, the library
  and the factor: the modal variables and the other locals as they are initialised
  (lines 853 to 887).
\<close>

definition oas_state0 :: "FILE OasisStream \<Rightarrow> Library \<Rightarrow> real \<Rightarrow> oas_state" where
  "oas_state0 i lib fac =
     \<lparr>in' = i, library = lib, cells = [], factor = fac, len = 0,
      modal_absolute_pos = True, modal_layer = 0, modal_datatype = 0, modal_textlayer = 0,
      modal_texttype = 0, modal_placement_pos = (0, 0), modal_text_pos = (0, 0),
      modal_geom_pos = (0, 0), modal_geom_dim = (0, 0),
      modal_repetition = \<lparr>Repetition.type = None', columns = 0, rows = 0\<rparr>,
      modal_text_string = None, modal_placement_cell = None, modal_polygon_points = [],
      modal_path_points = [], modal_path_halfwidth = 0, modal_path_extensions = (0, 0),
      modal_ctrapezoid_type = 0, modal_circle_radius = 0, modal_property = None,
      modal_property_value_list = None, next_property = Library_properties,
      modal_property_unfinished = False, cell = None, stderr = []\<rparr>"

text \<open>
  \<^verbatim>\<open>read_oas\<close>. \<open>opened\<close> is what \<^verbatim>\<open>fopen(filename, "rb")\<close> gave, \<open>None\<close> for the null pointer.
  The result is the library returned, the cells it points to and what was sent to
  standard error; \<open>None\<close> when the loop has not ended within the fuel; a fault when the
  behaviour is undefined. When the file could not be opened, the message is written and
  then \<^verbatim>\<open>fclose(in.file)\<close> is called with the null pointer (lines 815 to 819).
\<close>

definition oasis_magic :: "byte list" where
  "oasis_magic =
     [0x25, 0x53, 0x45, 0x4D, 0x49, 0x2D, 0x4F, 0x41, 0x53, 0x49, 0x53, 0x0D, 0x0A, 0x01]"

definition read_oas ::
  "oas_collaborators \<Rightarrow> nat \<Rightarrow> FILE option \<Rightarrow> real \<Rightarrow> real
     \<Rightarrow> fault + (Library \<times> Cell list \<times> oas_message list) option" where
  "read_oas h fuel opened unit' tolerance =
     (case opened of
        None \<Rightarrow>
          (case fclose None of
             Inl e \<Rightarrow> Inl e
           | Inr u \<Rightarrow> Inr (Some (Library0, [], [Unable_to_open_OASIS_input])))
      | Some f \<Rightarrow>
          (let (header, f) = fread 14 f
           in if length header < 14 \<or> header \<noteq> oasis_magic
              then (case fclose (Some f) of
                      Inl e \<Rightarrow> Inl e
                    | Inr u \<Rightarrow> Inr (Some (Library0, [], [Invalid_OASIS_header])))
              else
                let i = \<lparr>file' = f, data = [], cursor = None\<rparr>;
                    (version, n, i) = oasis_read_string i False;
                    log = (if take 3 version \<noteq> [0x31, 0x2E, 0x30]
                           then [Unsupported_OASIS_version] else []);
                    (r, i) = oasis_read_real h i;
                    fac = 1 / r;
                    lib = Library0\<lparr>precision := 1 / 10 ^ 6 * fac\<rparr>;
                    (lib, fac) = (if 0 < unit'
                                  then (lib\<lparr>unit := unit'\<rparr>, fac * (1 / 10 ^ 6 / unit'))
                                  else (lib\<lparr>unit := 1 / 10 ^ 6\<rparr>, fac));
                    (offset_table_flag, i) = oasis_read_unsigned_integer i;
                    i = (if offset_table_flag = 0
                         then ((\<lambda>i. snd (oasis_read_unsigned_integer i)) ^^ 12) i
                         else i);
                    s = (oas_state0 i lib fac)\<lparr>len := n, stderr := log\<rparr>
                in case read_oas_loop h fuel s of
                     None \<Rightarrow> Inr None
                   | Some s \<Rightarrow>
                       (case fclose (Some (file' (in' s))) of
                          Inl e \<Rightarrow> Inl e
                        | Inr u \<Rightarrow> Inr (Some (library s, cells s, stderr s)))))"

subsection \<open>Properties of the OASIS reader\<close>

text \<open>
  For the closed examples: the record numbers of the OASIS standard, a reader of reals
  that takes the type and one unsigned integer, an inflation that copies, and untranslated
  parts that do nothing. The state is one that the loop is in at a CELL record with the
  name A, after elements of an earlier cell gave values to the modal variables (the
  RECTANGLE handler, for one, assigns \<^verbatim>\<open>modal_layer\<close> and \<^verbatim>\<open>modal_datatype\<close> at lines 1224 and
  1227, and an XYRELATIVE record clears the flag).
\<close>

definition example_oas_collaborators :: oas_collaborators where
  "example_oas_collaborators =
     \<lparr>record_byte = oasis_record_number,
      oasis_read_real =
        (\<lambda>i. let (t, i) = oasis_read_unsigned_integer i;
                  (v, i) = oasis_read_unsigned_integer i
              in (real (unat v), i)),
      zlib_inflate = (\<lambda>b n. \<lparr>init_ok = True, stream_end = True, total_out = take n b\<rparr>),
      end_fixups = (\<lambda>s. s),
      other_record = (\<lambda>r s. s)\<rparr>"

definition example_oas_state :: oas_state where
  "example_oas_state =
     (oas_state0
        \<lparr>file' = \<lparr>contents = [14, 1, 0x41, 2], position = 0\<rparr>, data = [], cursor = None\<rparr>
        (Library0\<lparr>unit := 1 / 10 ^ 6, precision := 1 / 10 ^ 9\<rparr>) (1 / 1000))
       \<lparr>modal_absolute_pos := False, modal_layer := 7, modal_datatype := 1,
        modal_placement_pos := (1, 2), modal_text_pos := (3, 4), modal_geom_pos := (5, 6),
        modal_geom_dim := (10, 20), modal_circle_radius := 2\<rparr>"

lemma example_decode_record:
  "decode_record example_oas_collaborators 14 = Some CELL"
  "decode_record example_oas_collaborators 34 = Some CBLOCK"
  by (simp_all add: decode_record_def oasis_records_def example_oas_collaborators_def
      oasis_record_number_def)

lemma example_oas_state_read:
  "oasis_read 1 (in' example_oas_state) =
     ([14], \<lparr>file' = \<lparr>contents = [14, 1, 0x41, 2], position = 1\<rparr>, data = [], cursor = None\<rparr>)"
  by (simp add: example_oas_state_def oas_state0_def oasis_read_def fread_def)

lemma cell_record_modal:
  "modal_absolute_pos (cell_record ref_num s)
   \<and> modal_placement_pos (cell_record ref_num s) = (0, 0)
   \<and> modal_text_pos (cell_record ref_num s) = (0, 0)
   \<and> modal_geom_pos (cell_record ref_num s) = (0, 0)"
  by (simp add: cell_record_def Let_def split: prod.splits)

lemma cell_record_keeps:
  "modal_layer (cell_record ref_num s) = modal_layer s"
  "modal_datatype (cell_record ref_num s) = modal_datatype s"
  "modal_textlayer (cell_record ref_num s) = modal_textlayer s"
  "modal_texttype (cell_record ref_num s) = modal_texttype s"
  "modal_geom_dim (cell_record ref_num s) = modal_geom_dim s"
  "modal_repetition (cell_record ref_num s) = modal_repetition s"
  "modal_text_string (cell_record ref_num s) = modal_text_string s"
  "modal_placement_cell (cell_record ref_num s) = modal_placement_cell s"
  "modal_polygon_points (cell_record ref_num s) = modal_polygon_points s"
  "modal_path_points (cell_record ref_num s) = modal_path_points s"
  "modal_path_halfwidth (cell_record ref_num s) = modal_path_halfwidth s"
  "modal_path_extensions (cell_record ref_num s) = modal_path_extensions s"
  "modal_ctrapezoid_type (cell_record ref_num s) = modal_ctrapezoid_type s"
  "modal_circle_radius (cell_record ref_num s) = modal_circle_radius s"
  "modal_property (cell_record ref_num s) = modal_property s"
  "modal_property_value_list (cell_record ref_num s) = modal_property_value_list s"
  by (simp_all add: cell_record_def Let_def split: prod.splits)

lemma oas_record_cell:
  "decode_record h b = Some CELL \<Longrightarrow> oas_record h b s = cell_record False s"
  "decode_record h b = Some CELL_REF_NUM \<Longrightarrow> oas_record h b s = cell_record True s"
  by (simp_all add: oas_record_def)

text \<open>
  On a file that starts with the magic string, what \<^verbatim>\<open>read_oas\<close> returns is what the
  loop makes of a state in which the modal variables have their initial values.
\<close>

lemma read_oas_runs_loop:
  assumes "fread 14 f = (oasis_magic, f1)"
  shows "\<exists>i lib fac n msgs.
      read_oas h fuel (Some f) u tolerance =
        (case read_oas_loop h fuel ((oas_state0 i lib fac)\<lparr>len := n, stderr := msgs\<rparr>) of
           None \<Rightarrow> Inr None
         | Some s \<Rightarrow> Inr (Some (library s, cells s, stderr s)))"
proof -
  have magic: "length oasis_magic = 14" by (simp add: oasis_magic_def)
  obtain version n i1 where
    v: "oasis_read_string \<lparr>file' = f1, data = [], cursor = None\<rparr> False = (version, n, i1)"
    by (rule prod_cases3)
  obtain r i2 where r: "oasis_read_real h i1 = (r, i2)"
    by (rule prod.exhaust)
  obtain flag i3 where fl: "oasis_read_unsigned_integer i2 = (flag, i3)"
    by (rule prod.exhaust)
  show ?thesis
  proof (cases "0 < u")
    case True
    have "read_oas h fuel (Some f) u tolerance =
        (case read_oas_loop h fuel
           ((oas_state0
               (if flag = 0 then ((\<lambda>i. snd (oasis_read_unsigned_integer i)) ^^ 12) i3 else i3)
               (Library0\<lparr>precision := 1 / 10 ^ 6 * (1 / r), unit := u\<rparr>)
               (1 / r * (1 / 10 ^ 6 / u)))
              \<lparr>len := n,
               stderr := (if take 3 version \<noteq> [0x31, 0x2E, 0x30]
                          then [Unsupported_OASIS_version] else [])\<rparr>) of
           None \<Rightarrow> Inr None
         | Some s \<Rightarrow> Inr (Some (library s, cells s, stderr s)))"
      by (simp only: read_oas_def option.case assms prod.case Let_def magic v r fl True
          fclose_def sum.case simp_thms if_False if_True less_irrefl)
    then show ?thesis by blast
  next
    case False
    have "read_oas h fuel (Some f) u tolerance =
        (case read_oas_loop h fuel
           ((oas_state0
               (if flag = 0 then ((\<lambda>i. snd (oasis_read_unsigned_integer i)) ^^ 12) i3 else i3)
               (Library0\<lparr>precision := 1 / 10 ^ 6 * (1 / r), unit := 1 / 10 ^ 6\<rparr>)
               (1 / r))
              \<lparr>len := n,
               stderr := (if take 3 version \<noteq> [0x31, 0x2E, 0x30]
                          then [Unsupported_OASIS_version] else [])\<rparr>) of
           None \<Rightarrow> Inr None
         | Some s \<Rightarrow> Inr (Some (library s, cells s, stderr s)))"
      by (simp only: read_oas_def option.case assms prod.case Let_def magic v r fl False
          fclose_def sum.case simp_thms if_False if_True less_irrefl)
    then show ?thesis by blast
  qed
qed

subsection \<open>The modal positions after a CELL record\<close>

text \<open>
  Claim C6. When the byte that the loop reads is the one of CELL or of \<^verbatim>\<open>CELL_REF_NUM\<close>, the
  loop goes on from the state that the handler leaves, and in that state the modal
  placement position, text position and geometry position are (0,0) and the modal
  absolute-position flag is true.
\<close>

theorem read_oas_cell_modal_positions:
  assumes "oasis_read 1 (in' s) = (b # bs, i)"
    and "decode_record h b = Some CELL \<or> decode_record h b = Some CELL_REF_NUM"
    and "s' = oas_record h b (s\<lparr>in' := i\<rparr>)"
  shows "read_oas_loop h (Suc n) s = read_oas_loop h n s'
       \<and> modal_placement_pos s' = (0, 0)
       \<and> modal_text_pos s' = (0, 0)
       \<and> modal_geom_pos s' = (0, 0)
       \<and> modal_absolute_pos s'"
proof -
  have "read_oas_loop h (Suc n) s = read_oas_loop h n s'"
    using assms(1,3) by simp
  moreover obtain r where "s' = cell_record r (s\<lparr>in' := i\<rparr>)"
    using assms(2,3) oas_record_cell by metis
  ultimately show ?thesis
    using cell_record_modal [of r "s\<lparr>in' := i\<rparr>"] by simp
qed

theorem read_oas_cell_modal_positions_witness:
  "modal_placement_pos example_oas_state = (1, 2)
   \<and> modal_text_pos example_oas_state = (3, 4)
   \<and> modal_geom_pos example_oas_state = (5, 6)
   \<and> \<not> modal_absolute_pos example_oas_state
   \<and> (\<exists>i s'. oasis_read 1 (in' example_oas_state) = ([14], i)
        \<and> decode_record example_oas_collaborators 14 = Some CELL
        \<and> s' = oas_record example_oas_collaborators 14 (example_oas_state\<lparr>in' := i\<rparr>)
        \<and> read_oas_loop example_oas_collaborators (Suc 2) example_oas_state =
            read_oas_loop example_oas_collaborators 2 s'
        \<and> Cell.name (cells s' ! 0) = Some [0x41, 0]
        \<and> modal_placement_pos s' = (0, 0)
        \<and> modal_text_pos s' = (0, 0)
        \<and> modal_geom_pos s' = (0, 0)
        \<and> modal_absolute_pos s')"
proof -
  let ?i = "\<lparr>file' = \<lparr>contents = [14, 1, 0x41, 2], position = 1\<rparr>, data = [], cursor = None\<rparr>"
  let ?s = "oas_record example_oas_collaborators 14 (example_oas_state\<lparr>in' := ?i\<rparr>)"
  have before: "modal_placement_pos example_oas_state = (1, 2)"
    "modal_text_pos example_oas_state = (3, 4)" "modal_geom_pos example_oas_state = (5, 6)"
    "\<not> modal_absolute_pos example_oas_state"
    by (simp_all add: example_oas_state_def oas_state0_def)
  have name: "Cell.name (cells ?s ! 0) = Some [0x41, 0]"
    by (simp add: oas_record_cell(1) [OF example_decode_record(1)] cell_record_def Let_def
        example_oas_state_def oas_state0_def oasis_read_string_def
        oasis_read_unsigned_integer_def unread_def oasis_read_def fread_def Cell0_def)
  from read_oas_cell_modal_positions [OF example_oas_state_read _ refl, of
      example_oas_collaborators 2] example_decode_record(1)
  have "read_oas_loop example_oas_collaborators (Suc 2) example_oas_state =
            read_oas_loop example_oas_collaborators 2 ?s
        \<and> modal_placement_pos ?s = (0, 0) \<and> modal_text_pos ?s = (0, 0)
        \<and> modal_geom_pos ?s = (0, 0) \<and> modal_absolute_pos ?s"
    by simp
  with before name example_oas_state_read example_decode_record(1) show ?thesis
    by blast
qed

subsection \<open>The other modal variables at a CELL record\<close>

text \<open>
  Claim C5, as amended. When the byte that the loop reads is the one of CELL or of
  \<^verbatim>\<open>CELL_REF_NUM\<close>, the handler sets the modal placement, text and geometry positions to
  (0,0) and the absolute-position flag to true, and every other modal variable has after
  the record the value it had before: the layer, the datatype, the text layer, the text
  type, the geometry dimensions, the repetition, the text string, the placement cell,
  the two point lists, the path halfwidth, the path extensions, the ctrapezoid type, the
  circle radius, the property and the property value list.
\<close>

theorem read_oas_cell_modal_variables:
  assumes "oasis_read 1 (in' s) = (b # bs, i)"
    and "decode_record h b = Some CELL \<or> decode_record h b = Some CELL_REF_NUM"
    and "s' = oas_record h b (s\<lparr>in' := i\<rparr>)"
  shows "read_oas_loop h (Suc n) s = read_oas_loop h n s'
       \<and> modal_absolute_pos s'
       \<and> modal_placement_pos s' = (0, 0)
       \<and> modal_text_pos s' = (0, 0)
       \<and> modal_geom_pos s' = (0, 0)
       \<and> modal_layer s' = modal_layer s
       \<and> modal_datatype s' = modal_datatype s
       \<and> modal_textlayer s' = modal_textlayer s
       \<and> modal_texttype s' = modal_texttype s
       \<and> modal_geom_dim s' = modal_geom_dim s
       \<and> modal_repetition s' = modal_repetition s
       \<and> modal_text_string s' = modal_text_string s
       \<and> modal_placement_cell s' = modal_placement_cell s
       \<and> modal_polygon_points s' = modal_polygon_points s
       \<and> modal_path_points s' = modal_path_points s
       \<and> modal_path_halfwidth s' = modal_path_halfwidth s
       \<and> modal_path_extensions s' = modal_path_extensions s
       \<and> modal_ctrapezoid_type s' = modal_ctrapezoid_type s
       \<and> modal_circle_radius s' = modal_circle_radius s
       \<and> modal_property s' = modal_property s
       \<and> modal_property_value_list s' = modal_property_value_list s"
proof -
  have "read_oas_loop h (Suc n) s = read_oas_loop h n s'"
    using assms(1,3) by simp
  moreover obtain r where "s' = cell_record r (s\<lparr>in' := i\<rparr>)"
    using assms(2,3) oas_record_cell by metis
  ultimately show ?thesis
    using cell_record_modal [of r "s\<lparr>in' := i\<rparr>"]
    by (simp add: cell_record_keeps)
qed

theorem read_oas_cell_modal_variables_witness:
  "\<exists>i s'. oasis_read 1 (in' example_oas_state) = ([14], i)
        \<and> decode_record example_oas_collaborators 14 = Some CELL
        \<and> s' = oas_record example_oas_collaborators 14 (example_oas_state\<lparr>in' := i\<rparr>)
        \<and> modal_absolute_pos s'
        \<and> modal_geom_pos s' = (0, 0)
        \<and> modal_layer s' = 7
        \<and> modal_datatype s' = 1
        \<and> modal_geom_dim s' = (10, 20)
        \<and> modal_circle_radius s' = 2
        \<and> modal_textlayer s' = 0"
proof -
  let ?i = "\<lparr>file' = \<lparr>contents = [14, 1, 0x41, 2], position = 1\<rparr>, data = [], cursor = None\<rparr>"
  let ?s = "oas_record example_oas_collaborators 14 (example_oas_state\<lparr>in' := ?i\<rparr>)"
  have before: "modal_layer example_oas_state = 7" "modal_datatype example_oas_state = 1"
    "modal_geom_dim example_oas_state = (10, 20)" "modal_circle_radius example_oas_state = 2"
    "modal_textlayer example_oas_state = 0"
    by (simp_all add: example_oas_state_def oas_state0_def)
  from read_oas_cell_modal_variables [OF example_oas_state_read _ refl, of
      example_oas_collaborators 0] example_decode_record(1)
  have "modal_absolute_pos ?s \<and> modal_geom_pos ?s = (0, 0) \<and> modal_layer ?s = 7
      \<and> modal_datatype ?s = 1 \<and> modal_geom_dim ?s = (10, 20) \<and> modal_circle_radius ?s = 2
      \<and> modal_textlayer ?s = 0"
    by (simp add: before)
  with example_oas_state_read example_decode_record(1) show ?thesis
    by blast
qed

text \<open>
  Claim C5 as stated fails: after the CELL record the modal layer, the datatype, the
  geometry dimensions and the circle radius are not at their defaults.
\<close>

theorem read_oas_cell_modal_variables_counterexample:
  "\<exists>i s'. oasis_read 1 (in' example_oas_state) = ([14], i)
        \<and> decode_record example_oas_collaborators 14 = Some CELL
        \<and> s' = oas_record example_oas_collaborators 14 (example_oas_state\<lparr>in' := i\<rparr>)
        \<and> Cell.name (cells s' ! 0) = Some [0x41, 0]
        \<and> modal_layer s' \<noteq> 0
        \<and> modal_datatype s' \<noteq> 0
        \<and> modal_geom_dim s' \<noteq> (0, 0)
        \<and> modal_circle_radius s' \<noteq> 0"
  by (simp add: example_oas_state_read example_decode_record oas_record_cell(1)
      cell_record_def Let_def example_oas_state_def oas_state0_def oasis_read_string_def
      oasis_read_unsigned_integer_def unread_def oasis_read_def fread_def Cell0_def)

subsection \<open>A CBLOCK with an unsupported compression type\<close>

text \<open>
  An OASIS file: the magic string, the version, the real 1, the flag 1 for an offset
  table at the end, then at offset 21 a CBLOCK record of compression type 1, uncompressed
  size 5 and compressed size 21, its 21 bytes, and the END record. \<open>example_cblock_state\<close>
  is the state of the loop at offset 21 of this file, whatever \<^verbatim>\<open>len\<close> and the messages
  written so far.
\<close>

definition example_cblock_file :: FILE where
  "example_cblock_file =
     \<lparr>contents = oasis_magic @ [3, 0x31, 0x2E, 0x30] @ [0, 1] @ [1]
                   @ [34, 1, 5, 21] @ replicate 21 0xAA @ [2],
      position = 0\<rparr>"

definition example_cblock_state :: "64 word \<Rightarrow> oas_message list \<Rightarrow> oas_state" where
  "example_cblock_state n msgs =
     (oas_state0
        \<lparr>file' = example_cblock_file\<lparr>position := 21\<rparr>, data = [], cursor = None\<rparr>
        (Library0\<lparr>precision := 1 / 10 ^ 6, unit := 1 / 10 ^ 6\<rparr>) 1)
       \<lparr>len := n, stderr := msgs\<rparr>"

lemma example_oasis_read_real:
  "oasis_read_real example_oas_collaborators i =
     (let (t, i) = oasis_read_unsigned_integer i;
          (v, i) = oasis_read_unsigned_integer i
      in (real (unat v), i))"
  by (simp add: example_oas_collaborators_def)

lemma example_cblock_start:
  "read_oas example_oas_collaborators fuel (Some example_cblock_file) 0 tolerance =
     (case read_oas_loop example_oas_collaborators fuel (example_cblock_state 3 []) of
        None \<Rightarrow> Inr None
      | Some s \<Rightarrow> Inr (Some (library s, cells s, stderr s)))"
proof -
  have header: "fread 14 example_cblock_file = (oasis_magic, example_cblock_file\<lparr>position := 14\<rparr>)"
    by (simp add: fread_def example_cblock_file_def oasis_magic_def)
  have version:
    "oasis_read_string \<lparr>file' = example_cblock_file\<lparr>position := 14\<rparr>, data = [], cursor = None\<rparr>
       False =
     ([0x31, 0x2E, 0x30], 3,
      \<lparr>file' = example_cblock_file\<lparr>position := 18\<rparr>, data = [], cursor = None\<rparr>)"
    by (simp add: oasis_read_string_def oasis_read_unsigned_integer_def unread_def
        oasis_read_def fread_def example_cblock_file_def oasis_magic_def)
  have real:
    "oasis_read_real example_oas_collaborators
       \<lparr>file' = example_cblock_file\<lparr>position := 18\<rparr>, data = [], cursor = None\<rparr> =
     (1, \<lparr>file' = example_cblock_file\<lparr>position := 20\<rparr>, data = [], cursor = None\<rparr>)"
    by (simp add: example_oasis_read_real oasis_read_unsigned_integer_def unread_def
        oasis_read_def fread_def example_cblock_file_def oasis_magic_def)
  have flag:
    "oasis_read_unsigned_integer
       \<lparr>file' = example_cblock_file\<lparr>position := 20\<rparr>, data = [], cursor = None\<rparr> =
     (1, \<lparr>file' = example_cblock_file\<lparr>position := 21\<rparr>, data = [], cursor = None\<rparr>)"
    by (simp add: oasis_read_unsigned_integer_def unread_def
        oasis_read_def fread_def example_cblock_file_def oasis_magic_def)
  have state: "(oas_state0
        \<lparr>file' = example_cblock_file\<lparr>position := 21\<rparr>, data = [], cursor = None\<rparr>
        (Library0\<lparr>precision := 1 / 10 ^ 6 * (1 / 1), unit := 1 / 10 ^ 6\<rparr>) (1 / 1))
       \<lparr>len := 3, stderr := []\<rparr> = example_cblock_state 3 []"
    by (simp add: example_cblock_state_def)
  have magic: "length oasis_magic = 14" by (simp add: oasis_magic_def)
  have three: "take 3 [0x31, 0x2E, 0x30 :: byte] = [0x31, 0x2E, 0x30]" by simp
  show ?thesis
    by (simp only: read_oas_def option.case header prod.case Let_def magic version real flag
        three state fclose_def sum.case simp_thms if_False less_irrefl one_neq_zero)
qed

lemma example_cblock_turn:
  "read_oas_loop example_oas_collaborators (Suc fuel) (example_cblock_state n msgs) =
     read_oas_loop example_oas_collaborators fuel
       (example_cblock_state 21 (msgs @ [CBLOCK_method_not_supported]))"
proof -
  let ?i = "\<lparr>file' = example_cblock_file\<lparr>position := 22\<rparr>, data = [], cursor = None\<rparr>"
  have r: "oasis_read 1 (in' (example_cblock_state n msgs)) = ([34], ?i)"
    by (simp add: example_cblock_state_def oas_state0_def example_cblock_file_def
        oasis_read_def fread_def oasis_magic_def)
  have h: "oas_record example_oas_collaborators 34 ((example_cblock_state n msgs)\<lparr>in' := ?i\<rparr>) =
      example_cblock_state 21 (msgs @ [CBLOCK_method_not_supported])"
    by (simp add: oas_record_def example_decode_record(2) cblock_record_def
        example_cblock_state_def oas_state0_def example_cblock_file_def
        oasis_read_unsigned_integer_def unread_def oasis_read_def fread_def oasis_magic_def
        fseek_set_def Let_def)
  show ?thesis
    by (simp only: read_oas_loop.simps r h prod.case list.case)
qed

lemma example_cblock_loop:
  "read_oas_loop example_oas_collaborators fuel (example_cblock_state n msgs) = None"
proof (induction fuel arbitrary: n msgs)
  case 0
  show ?case by simp
next
  case (Suc fuel)
  show ?case
    by (simp only: example_cblock_turn Suc.IH)
qed

text \<open>
  Whatever the file: when the compression type is not 0, the handler leaves the file at
  the offset that the compressed size gives, counted from the start of the file.
\<close>

lemma cblock_record_unsupported:
  assumes "oasis_read_unsigned_integer (in' s) = (compression_type, i1)"
    and "compression_type \<noteq> 0"
    and "oasis_read_unsigned_integer i1 = (uncompressed_size, i2)"
    and "oasis_read_unsigned_integer i2 = (n, i3)"
    and "0 \<le> sint n"
  shows "position (file' (in' (cblock_record h s))) = unat n
       \<and> stderr (cblock_record h s) = stderr s @ [CBLOCK_method_not_supported]"
  using assms by (simp add: cblock_record_def fseek_set_def)

text \<open>
  Claim C3. On this file the handler writes its message, reads the two sizes and calls
  \<^verbatim>\<open>fseek(in.file, 21, SEEK_SET)\<close>: the position is the compressed size counted from
  the start of the file, which is where the CBLOCK record is, not the 21 bytes after the
  sizes (offset 46, where the END record is). The next turn of the loop reads the same
  record again, and so forth: whatever the fuel, the loop has not ended, and \<^verbatim>\<open>read_oas\<close>
  does not return.
\<close>

theorem read_oas_unsupported_cblock:
  "(\<exists>i. oasis_read 1 (in' (example_cblock_state 3 [])) = ([34], i)
        \<and> position (file' i) = 22
        \<and> decode_record example_oas_collaborators 34 = Some CBLOCK
        \<and> contents example_cblock_file ! 46 = 2
        \<and> position (file' (in' (oas_record example_oas_collaborators 34
                                 ((example_cblock_state 3 [])\<lparr>in' := i\<rparr>)))) = 21
        \<and> stderr (oas_record example_oas_collaborators 34
                    ((example_cblock_state 3 [])\<lparr>in' := i\<rparr>)) = [CBLOCK_method_not_supported])
   \<and> (\<forall>fuel. read_oas example_oas_collaborators fuel (Some example_cblock_file) 0 0 =
         Inr None)"
proof (intro conjI allI)
  let ?i = "\<lparr>file' = example_cblock_file\<lparr>position := 22\<rparr>, data = [], cursor = None\<rparr>"
  have "oasis_read 1 (in' (example_cblock_state 3 [])) = ([34], ?i)
        \<and> position (file' ?i) = 22
        \<and> decode_record example_oas_collaborators 34 = Some CBLOCK
        \<and> contents example_cblock_file ! 46 = 2
        \<and> position (file' (in' (oas_record example_oas_collaborators 34
                                 ((example_cblock_state 3 [])\<lparr>in' := ?i\<rparr>)))) = 21
        \<and> stderr (oas_record example_oas_collaborators 34
                    ((example_cblock_state 3 [])\<lparr>in' := ?i\<rparr>)) = [CBLOCK_method_not_supported]"
    by (simp add: oas_record_def example_decode_record(2) cblock_record_def
        example_cblock_state_def oas_state0_def example_cblock_file_def
        oasis_read_unsigned_integer_def unread_def oasis_read_def fread_def oasis_magic_def
        fseek_set_def Let_def nth_append)
  then show "\<exists>i. oasis_read 1 (in' (example_cblock_state 3 [])) = ([34], i)
        \<and> position (file' i) = 22
        \<and> decode_record example_oas_collaborators 34 = Some CBLOCK
        \<and> contents example_cblock_file ! 46 = 2
        \<and> position (file' (in' (oas_record example_oas_collaborators 34
                                 ((example_cblock_state 3 [])\<lparr>in' := i\<rparr>)))) = 21
        \<and> stderr (oas_record example_oas_collaborators 34
                    ((example_cblock_state 3 [])\<lparr>in' := i\<rparr>)) = [CBLOCK_method_not_supported]"
    by (rule exI)
next
  fix fuel
  show "read_oas example_oas_collaborators fuel (Some example_cblock_file) 0 0 = Inr None"
    by (simp only: example_cblock_start example_cblock_loop option.case)
qed

subsection \<open>Files that cannot be opened\<close>

text \<open>
  Claim C8. When \<^verbatim>\<open>fopen\<close> gives the null pointer, \<^verbatim>\<open>read_gds\<close> writes its message and
  returns the zero-initialised library, which has a null name and no cell; \<^verbatim>\<open>write_gds\<close>
  and \<^verbatim>\<open>write_oas\<close> write their message and return, and no file was written. \<^verbatim>\<open>read_oas\<close>
  writes its message and then calls \<^verbatim>\<open>fclose\<close> with the null pointer: it does not get as
  far as its \<^verbatim>\<open>return\<close>.
\<close>

theorem open_failure:
  "(\<exists>s. read_gds g2d None u tolerance = Inr (Library0, s)
        \<and> gds_state.stderr s = [Unable_to_open_input]
        \<and> Library.name Library0 = None \<and> cell_array Library0 = [])
   \<and> write_gds hw lib False max_points timestamp =
        (None, [''[GDSTK] Unable to open GDSII file for output.''])
   \<and> write_oas hw lib False tolerance deflate_level flags =
        (None, [''[GDSTK] Unable to open OASIS file for output.''])
   \<and> read_oas hr fuel None u tolerance = Inl Fclose_null"
  by (simp add: read_gds_def gds_init_def Library0_def write_gds_def write_oas_def
      read_oas_def fclose_def)

end
